theory Spec2Isabelle
  imports
    Complex_Main
    "HOL-Library.Char_ord"
    "HOL-Library.List_Lexorder"
    "HOL-Library.Product_Lexorder"
    "HOL-Library.Multiset"
begin

section \<open>Python values, exceptions and text primitives\<close>

text \<open>
  The exceptions the modelled code raises. \<open>ReadError\<close>, \<open>WriteError\<close> are meshio's own
  (\<open>_exceptions\<close>); the others are raised by the interpreter or by numpy. The messages of
  exceptions raised by meshio are kept; interpreter-raised exceptions carry no message.
  \<open>Unmodelled\<close> is not an exception: it marks the inputs on which what numpy does depends on
  its version or on the C library (negative counts, a binary file shorter than the records it
  announces); the model stops there and says nothing about them.
\<close>

datatype error =
    ReadError string
  | WriteError string
  | ValueError string
  | KeyError
  | TypeError
  | IndexError
  | AttributeError string
  | OverflowError
  | AxisError
  | Unmodelled

text \<open>
  Text is modelled as a list of \<open>char\<close>; \<open>decode("utf-8")\<close> and \<open>encode("utf-8")\<close> are the
  identity (ASCII text: decoding errors and non-ASCII white space are outside the model).
  \<open>is_space\<close> is \<open>str.isspace\<close> on ASCII.
\<close>

definition is_space :: "char \<Rightarrow> bool" where
  "is_space c \<longleftrightarrow> c \<in> {CHR '' '', CHR 0x09, CHR 0x0A, CHR 0x0B, CHR 0x0C, CHR 0x0D,
                         CHR 0x1C, CHR 0x1D, CHR 0x1E, CHR 0x1F}"

definition strip :: "string \<Rightarrow> string" where
  "strip s = rev (dropWhile is_space (rev (dropWhile is_space s)))"

text \<open>\<open>s.split(".")[0]\<close>: the text before the first dot (all of \<open>s\<close> when it has none).\<close>

definition before_dot :: "string \<Rightarrow> string" where
  "before_dot s = takeWhile (\<lambda>c. c \<noteq> CHR ''.'') s"

text \<open>\<open>str\<close> of a Python integer: decimal digits, a minus sign for negatives.\<close>

definition digit :: "nat \<Rightarrow> char" where
  "digit d = ''0123456789'' ! d"

fun str_nat :: "nat \<Rightarrow> string" where
  "str_nat n = (if n < 10 then [digit n] else str_nat (n div 10) @ [digit (n mod 10)])"

declare str_nat.simps [simp del]

definition str_int :: "int \<Rightarrow> string" where
  "str_int i = (if i < 0 then CHR ''-'' # str_nat (nat (- i)) else str_nat (nat i))"

text \<open>
  \<open>repr\<close> of a list of plain strings, as \<open>"{}".format(keys)\<close> prints it: each string in
  single quotes (escaping is not needed for the keys that occur), separated by \<open>", "\<close>.
\<close>

fun join :: "string \<Rightarrow> string list \<Rightarrow> string" where
  "join sep [] = []"
| "join sep [x] = x"
| "join sep (x # y # ys) = x @ sep @ join sep (y # ys)"

definition repr_str_list :: "string list \<Rightarrow> string" where
  "repr_str_list ks = ''['' @ join '', '' (map (\<lambda>k. [CHR 0x27] @ k @ [CHR 0x27]) ks) @ '']''"

text \<open>
  \<open>int(s)\<close> on text: surrounding white space is stripped, an optional sign, then decimal
  digits, where single underscores may stand between digits. \<open>None\<close> is \<open>ValueError\<close>.
\<close>

definition is_digit :: "char \<Rightarrow> bool" where
  "is_digit c \<longleftrightarrow> c \<in> set ''0123456789''"

definition digit_val :: "char \<Rightarrow> nat" where
  "digit_val c = of_char c - 48"

definition nat_of_digits :: "string \<Rightarrow> nat" where
  "nat_of_digits ds = foldl (\<lambda>a c. 10 * a + digit_val c) 0 ds"

fun int_body :: "string \<Rightarrow> bool" where
  "int_body [] = False"
| "int_body [c] = is_digit c"
| "int_body (c # d # r) = (is_digit c \<and> (if d = CHR ''_'' then int_body r else int_body (d # r)))"

definition py_int :: "string \<Rightarrow> int option" where
  "py_int s =
     (let t = strip s;
          neg = (t \<noteq> [] \<and> hd t = CHR ''-'');
          body = (if t \<noteq> [] \<and> (hd t = CHR ''-'' \<or> hd t = CHR ''+'') then tl t else t)
      in if int_body body
         then Some ((if neg then - 1 else 1) * int (nat_of_digits (filter (\<lambda>c. c \<noteq> CHR ''_'') body)))
         else None)"

text \<open>\<open>s.split()\<close>: the maximal runs of non-space characters.\<close>

fun split_acc :: "string \<Rightarrow> string \<Rightarrow> string list" where
  "split_acc cur [] = (if cur = [] then [] else [rev cur])"
| "split_acc cur (c # cs) =
     (if is_space c then (if cur = [] then split_acc [] cs else rev cur # split_acc [] cs)
      else split_acc (c # cur) cs)"

definition split_ws :: "string \<Rightarrow> string list" where
  "split_ws s = split_acc [] s"

text \<open>
  A file opened for reading is the list of the bytes not yet read. \<open>f.readline()\<close> returns
  the bytes up to and including the next line feed (all the rest when there is none, the
  empty string at the end of the file) and leaves the remainder.
\<close>

abbreviation nl :: "string" where
  "nl \<equiv> [CHR 0x0A]"

definition readline :: "string \<Rightarrow> string \<times> string" where
  "readline f =
     (case dropWhile (\<lambda>c. c \<noteq> CHR 0x0A) f of
        [] \<Rightarrow> (f, [])
      | c # r \<Rightarrow> (takeWhile (\<lambda>c. c \<noteq> CHR 0x0A) f @ [c], r))"

text \<open>
  A C \<open>int\<close> as numpy's \<open>dtype("i")\<close> and \<open>struct\<close>'s \<open>"i"\<close> store it: four bytes, two's
  complement, least significant byte first (the host order of x86-64 and AArch64). Storing
  a wider integer wraps modulo \<open>2^32\<close>.
\<close>

definition pack_int32 :: "int \<Rightarrow> string" where
  "pack_int32 i =
     (let u = i mod 2 ^ 32
      in [char_of u, char_of (u div 2 ^ 8), char_of (u div 2 ^ 16), char_of (u div 2 ^ 24)])"

definition unpack_int32 :: "string \<Rightarrow> int" where
  "unpack_int32 bs =
     (let u = of_char (bs ! 0) + 2 ^ 8 * of_char (bs ! 1) + 2 ^ 16 * of_char (bs ! 2)
              + 2 ^ 24 * of_char (bs ! 3)
      in if u < 2 ^ 31 then u else u - 2 ^ 32)"

section \<open>Gmsh: version dispatch (gmsh/main.py)\<close>

text \<open>
  The version-specific codec modules \<open>_gmsh22\<close>, \<open>_gmsh40\<close>, \<open>_gmsh41\<close> are tags here: the
  dispatch only selects one of them.
\<close>

datatype codec_module = Gmsh22 | Gmsh40 | Gmsh41

definition readers :: "(string \<times> codec_module) list" where
  "readers = [(''2'', Gmsh22), (''4'', Gmsh40), (''4.0'', Gmsh40), (''4.1'', Gmsh41)]"

definition writers :: "(string \<times> codec_module) list" where
  "writers = [(''2'', Gmsh22), (''4'', Gmsh41), (''4.0'', Gmsh40), (''4.1'', Gmsh41)]"

text \<open>
  The \<open>try\<close>/\<open>except KeyError\<close> cascade of \<open>read_buffer\<close> and \<open>write\<close>, over either table:
  the exact key, then the text before the first dot, then \<open>ValueError\<close>.
\<close>

definition need_format_msg :: "(string \<times> codec_module) list \<Rightarrow> string \<Rightarrow> string" where
  "need_format_msg table fmt_version =
     ''Need mesh format in '' @ repr_str_list (sort (map fst table)) @
     '' (got '' @ fmt_version @ '')''"

definition select_codec :: "(string \<times> codec_module) list \<Rightarrow> string \<Rightarrow> error + codec_module" where
  "select_codec table fmt_version =
     (case map_of table fmt_version of
        Some m \<Rightarrow> Inr m
      | None \<Rightarrow>
         (case map_of table (before_dot fmt_version) of
            Some m \<Rightarrow> Inr m
          | None \<Rightarrow> Inl (ValueError (need_format_msg table fmt_version))))"

text \<open>
  \<open>_read_header\<close>. The two \<open>while\<close> loops that look for a closing marker call
  \<open>readline\<close> until the marker shows up; at the end of the file \<open>readline\<close> returns the
  empty string for ever, so the loops need not return: they are partial functions, and
  \<open>None\<close> is a call that never returns. \<open>StructError\<close> is \<open>struct.error\<close> (fewer than four
  bytes left for the endianness check).
\<close>

partial_function (option) fast_forward :: "string \<Rightarrow> string \<Rightarrow> string option" where
  "fast_forward marker f =
     (if strip (fst (readline f)) = marker then Some (snd (readline f))
      else fast_forward marker (snd (readline f)))"

datatype header_error = Py error | StructError

definition read_header :: "string \<Rightarrow> (header_error + (string \<times> int \<times> bool \<times> string)) option" where
  "read_header f =
     (let line = fst (readline f); f1 = snd (readline f);
          str_list = filter (\<lambda>t. t \<noteq> []) (split_ws line)
      in if length str_list < 2 then Some (Inl (Py IndexError))
         else if str_list ! 1 \<notin> set [''0'', ''1''] then Some (Inl (Py (ReadError [])))
         else if length str_list < 3 then Some (Inl (Py IndexError))
         else (case py_int (str_list ! 2) of
                 None \<Rightarrow> Some (Inl (Py (ValueError [])))
               | Some data_size \<Rightarrow>
                  (let fmt_version = str_list ! 0; is_ascii = (str_list ! 1 = ''0'') in
                   if \<not> is_ascii \<and> length f1 < 4 then Some (Inl StructError)
                   else if \<not> is_ascii \<and> unpack_int32 (take 4 f1) \<noteq> 1
                     then Some (Inl (Py (ReadError [])))
                   else map_option (\<lambda>f3. Inr (fmt_version, data_size, is_ascii, f3))
                          (fast_forward ''$EndMeshFormat'' (if is_ascii then f1 else drop 4 f1)))))"

text \<open>
  \<open>read_buffer\<close>: skip \<open>$Comments\<close> sections, require \<open>$MeshFormat\<close>, read the header,
  select the codec module and call its \<open>read_buffer(f, is_ascii, data_size)\<close>. The modules
  themselves are not modelled: the result is the call that is made.
\<close>

partial_function (option) skip_to_end_comments :: "string \<Rightarrow> string \<Rightarrow> string option" where
  "skip_to_end_comments line f =
     (if line = ''$EndComments'' then Some f
      else skip_to_end_comments (strip (fst (readline f))) (snd (readline f)))"

partial_function (option) skip_comments :: "string \<Rightarrow> string \<Rightarrow> (string \<times> string) option" where
  "skip_comments line f =
     (if line = ''$Comments''
      then Option.bind (skip_to_end_comments line f)
             (\<lambda>f1. skip_comments (strip (fst (readline f1))) (snd (readline f1)))
      else Some (line, f))"

definition dispatch ::
  "(string \<times> codec_module) list \<Rightarrow> string \<times> int \<times> bool \<times> string
     \<Rightarrow> header_error + (codec_module \<times> string \<times> bool \<times> int)" where
  "dispatch table h =
     (case h of (fmt_version, data_size, is_ascii, f) \<Rightarrow>
        (case select_codec table fmt_version of
           Inl e \<Rightarrow> Inl (Py e)
         | Inr reader \<Rightarrow> Inr (reader, f, is_ascii, data_size)))"

definition read_buffer :: "string \<Rightarrow> (header_error + (codec_module \<times> string \<times> bool \<times> int)) option" where
  "read_buffer f =
     Option.bind (skip_comments (strip (fst (readline f))) (snd (readline f)))
       (\<lambda>(line, f1).
          if line \<noteq> ''$MeshFormat'' then Some (Inl (Py (ReadError [])))
          else Option.bind (read_header f1)
                 (\<lambda>r. case r of Inl e \<Rightarrow> Some (Inl e) | Inr h \<Rightarrow> Some (dispatch readers h)))"

section \<open>Gmsh: physical names (gmsh/common.py)\<close>










text \<open>
  A file that starts with a comment section and declares version \<open>4.3\<close>, in ASCII mode.
\<close>

definition example_header :: "string" where
  "example_header =
     ''$Comments'' @ nl @ ''hello'' @ nl @ ''$EndComments'' @ nl @ ''$MeshFormat'' @ nl @
     ''4.3 0 8'' @ nl @ ''$EndMeshFormat'' @ nl @ ''rest''"



section \<open>Gmsh: data sections (gmsh/common.py)\<close>

text \<open>
  A data field is a one- or two-dimensional numpy array: \<open>Arr1 xs\<close> has shape
  \<open>(len xs,)\<close>, \<open>Arr2 m rows\<close> has shape \<open>(len rows, m)\<close> and each of its rows has \<open>m\<close>
  entries (\<open>wf_array\<close>).
\<close>

datatype 'a ndarray = Arr1 "'a list" | Arr2 nat "'a list list"

fun shape :: "'a ndarray \<Rightarrow> nat list" where
  "shape (Arr1 xs) = [length xs]"
| "shape (Arr2 m rows) = [length rows, m]"

fun wf_array :: "'a ndarray \<Rightarrow> bool" where
  "wf_array (Arr1 xs) = True"
| "wf_array (Arr2 m rows) = list_all (\<lambda>r. length r = m) rows"

text \<open>\<open>data[:, 0]\<close>\<close>

fun column0 :: "'a ndarray \<Rightarrow> 'a ndarray" where
  "column0 (Arr2 m rows) = Arr1 (map hd rows)"
| "column0 (Arr1 xs) = Arr1 xs"

text \<open>
  Floating point is not modelled: the element type is a parameter, and so is what Python
  and numpy do with one element. \<open>py_repr\<close> is \<open>"{!r}".format(x)\<close>; \<open>np_scan\<close> is the scanner
  of \<open>numpy.fromfile\<close> in text mode for one number (it skips leading white space, and
  returns the number and the rest of the file, or \<open>None\<close> when no number starts there);
  \<open>np_pack\<close> stores an element as a C \<open>double\<close> and \<open>np_unpack\<close> reads one from eight bytes.
\<close>

record 'a float_codec =
  py_repr :: "'a \<Rightarrow> string"
  np_scan :: "string \<Rightarrow> ('a \<times> string) option"
  np_pack :: "'a \<Rightarrow> string"
  np_unpack :: "string \<Rightarrow> 'a"

text \<open>
  The records of \<open>tmp.tofile(fh)\<close> and the lines of the ASCII branch, for a flat array
  (\<open>num_components == 1\<close>) and for an array of rows.
\<close>

definition binary_record :: "'a float_codec \<Rightarrow> nat \<Rightarrow> 'a list \<Rightarrow> string" where
  "binary_record cdc k x = pack_int32 (1 + int k) @ concat (map (np_pack cdc) x)"

definition ascii_line :: "'a float_codec \<Rightarrow> nat \<Rightarrow> 'a list \<Rightarrow> string" where
  "ascii_line cdc k x = join '' '' (str_int (int k + 1) # map (py_repr cdc) x) @ nl"

definition write_body :: "'a float_codec \<Rightarrow> bool \<Rightarrow> nat \<Rightarrow> 'a ndarray \<Rightarrow> string" where
  "write_body cdc binary num_components data =
     (if binary
      then (if num_components = 1
            then (case data of
                    Arr1 xs \<Rightarrow> concat (map (\<lambda>(k, x). binary_record cdc k [x]) (enumerate 0 xs))
                  | Arr2 m rows \<Rightarrow> concat (map (\<lambda>(k, x). binary_record cdc k x) (enumerate 0 rows)))
            else (case data of
                    Arr1 xs \<Rightarrow> concat (map (\<lambda>(k, x). binary_record cdc k [x]) (enumerate 0 xs))
                  | Arr2 m rows \<Rightarrow> concat (map (\<lambda>(k, x). binary_record cdc k x) (enumerate 0 rows))))
           @ nl
      else (if num_components = 1
            then (case data of
                    Arr1 xs \<Rightarrow> concat (map (\<lambda>(k, x). ascii_line cdc k [x]) (enumerate 0 xs))
                  | Arr2 m rows \<Rightarrow> concat (map (\<lambda>(k, x). ascii_line cdc k x) (enumerate 0 rows)))
            else (case data of
                    Arr1 xs \<Rightarrow> concat (map (\<lambda>(k, x). ascii_line cdc k [x]) (enumerate 0 xs))
                  | Arr2 m rows \<Rightarrow> concat (map (\<lambda>(k, x). ascii_line cdc k x) (enumerate 0 rows)))))"

text \<open>Line 175: \<open>data.shape[1] if len(data.shape) > 1 else 1\<close>.\<close>

definition num_components_of :: "'a ndarray \<Rightarrow> nat" where
  "num_components_of data = (if length (shape data) > 1 then shape data ! 1 else 1)"

text \<open>
  \<open>_write_data\<close>: the file after the call (what is written is appended to \<open>fh\<close>) and the
  exception raised, if any. The writes before the component check have happened when the
  check fails.
\<close>

definition write_data ::
  "'a float_codec \<Rightarrow> string \<Rightarrow> string \<Rightarrow> string \<Rightarrow> 'a ndarray \<Rightarrow> bool \<Rightarrow> string \<times> error option" where
  "write_data cdc fh tag name data binary =
     (let fh1 = fh @ ''$'' @ tag @ nl;
          fh2 = fh1 @ str_int 1 @ nl;
          fh3 = fh2 @ [CHR 0x22] @ name @ [CHR 0x22] @ nl;
          fh4 = fh3 @ str_int 1 @ nl;
          fh5 = fh4 @ ''0.0'' @ nl;
          fh6 = fh5 @ str_int 3 @ nl;
          fh7 = fh6 @ str_int 0 @ nl;
          num_components = num_components_of data
      in if num_components \<notin> set [1, 3, 9]
         then (fh7, Some (WriteError ''Gmsh only permits 1, 3, or 9 components per data field.''))
         else
           (let data1 = (if length (shape data) > 1 \<and> shape data ! 1 = 1 then column0 data else data);
                fh8 = fh7 @ str_int (int num_components) @ nl;
                fh9 = fh8 @ str_int (int (shape data1 ! 0)) @ nl;
                fh10 = fh9 @ write_body cdc binary num_components data1
            in (fh10 @ ''$End'' @ tag @ nl, None)))"












text \<open>
  A codec for fields of integers, to run the model on: decimal text, and eight bytes in
  two's complement, least significant byte first.
\<close>

definition int_scan :: "string \<Rightarrow> (int \<times> string) option" where
  "int_scan s =
     (let t = dropWhile is_space s;
          neg = (t \<noteq> [] \<and> hd t = CHR ''-'');
          u = (if neg then tl t else t)
      in if takeWhile is_digit u = [] then None
         else Some ((if neg then - 1 else 1) * int (nat_of_digits (takeWhile is_digit u)),
                    dropWhile is_digit u))"

definition pack_int64 :: "int \<Rightarrow> string" where
  "pack_int64 i = map (\<lambda>k. char_of ((i mod 2 ^ 64) div 2 ^ (8 * k))) [0..<8]"

definition unpack_int64 :: "string \<Rightarrow> int" where
  "unpack_int64 bs =
     (let u = (\<Sum>k \<leftarrow> [0..<8]. 2 ^ (8 * k) * of_char (bs ! k))
      in if u < 2 ^ 63 then u else u - 2 ^ 64)"

definition int_codec :: "int float_codec" where
  "int_codec = \<lparr>py_repr = str_int, np_scan = int_scan, np_pack = pack_int64, np_unpack = unpack_int64\<rparr>"






text \<open>
  The text of an ASCII data block with the first column \<open>idx\<close> and the values \<open>rows\<close>, line
  by line as the writer formats it (the writer's own first column is \<open>1, 2, ...\<close>), and the
  tokens of one line with the white space that follows each: a blank, and a line feed after
  the last.
\<close>

definition ascii_table :: "'a float_codec \<Rightarrow> int list \<Rightarrow> 'a list list \<Rightarrow> string" where
  "ascii_table cdc idx rows =
     concat (map (\<lambda>(i, x). join '' '' (str_int i # map (py_repr cdc) x) @ nl) (zip idx rows))"


text \<open>
  What follows the opening marker in a section that \<open>_write_data\<close> writes: the tag lines,
  the block of data and the closing marker.
\<close>

definition section_head :: "string \<Rightarrow> nat \<Rightarrow> nat \<Rightarrow> string" where
  "section_head name num_components num_items =
     ''1'' @ nl @ [CHR 0x22] @ name @ [CHR 0x22] @ nl @ ''1'' @ nl @ ''0.0'' @ nl @ ''3'' @ nl
     @ ''0'' @ nl @ str_nat num_components @ nl @ str_nat num_items @ nl"

definition written_block :: "'a float_codec \<Rightarrow> bool \<Rightarrow> 'a list list \<Rightarrow> string" where
  "written_block cdc binary rows =
     (if binary then concat (map (\<lambda>(k, x). binary_record cdc k x) (enumerate 0 rows)) @ nl
      else ascii_table cdc (map (\<lambda>k. int k + 1) [0..<length rows]) rows)"

definition written_section :: "'a float_codec \<Rightarrow> bool \<Rightarrow> string \<Rightarrow> string \<Rightarrow> nat \<Rightarrow> 'a list list \<Rightarrow> string" where
  "written_section cdc binary tag name num_components rows =
     section_head name num_components (length rows) @ written_block cdc binary rows
     @ ''$End'' @ tag @ nl"


section \<open>XDMF: documents, paths and the outside world (xdmf/time_series.py)\<close>

text \<open>
  An element of the parsed document, as \<open>lxml\<close> gives it: its tag, its attributes, its text
  (\<open>None\<close> when it has none) and its children. Parsing itself (\<open>ET.parse\<close>) is outside the
  model: the reader starts from the root element.
\<close>

datatype element =
  Element (el_tag: string) (el_attrib: "(string \<times> string) list") (el_text: "string option")
    (el_children: "element list")

text \<open>\<open>e.attrib[key]\<close>, with its \<open>KeyError\<close>.\<close>

definition attr :: "element \<Rightarrow> string \<Rightarrow> error + string" where
  "attr e key = (case map_of (el_attrib e) key of None \<Rightarrow> Inl KeyError | Some v \<Rightarrow> Inr v)"

text \<open>
  \<open>os.path\<close> on POSIX paths: \<open>basename\<close>, \<open>dirname\<close>, \<open>join\<close> of two parts, and the root
  that \<open>splitext\<close> returns.
\<close>

definition after_last :: "char \<Rightarrow> string \<Rightarrow> string" where
  "after_last c s = rev (takeWhile (\<lambda>x. x \<noteq> c) (rev s))"

definition upto_last :: "char \<Rightarrow> string \<Rightarrow> string" where
  "upto_last c s = rev (dropWhile (\<lambda>x. x \<noteq> c) (rev s))"

definition basename :: "string \<Rightarrow> string" where
  "basename p = after_last (CHR ''/'') p"

definition dirname :: "string \<Rightarrow> string" where
  "dirname p =
     (let head = upto_last (CHR ''/'') p in
      if head \<noteq> [] \<and> \<not> list_all (\<lambda>c. c = CHR ''/'') head
      then rev (dropWhile (\<lambda>c. c = CHR ''/'') (rev head))
      else head)"

definition path_join :: "string \<Rightarrow> string \<Rightarrow> string" where
  "path_join a b =
     (if b \<noteq> [] \<and> hd b = CHR ''/'' then b
      else if a = [] \<or> last a = CHR ''/'' then a @ b
      else a @ ''/'' @ b)"

definition splitext_root :: "string \<Rightarrow> string" where
  "splitext_root p =
     (let base = basename p; stem = butlast (upto_last (CHR ''.'') base) in
      if CHR ''.'' \<in> set base \<and> \<not> list_all (\<lambda>c. c = CHR ''.'') stem
      then upto_last (CHR ''/'') p @ stem
      else p)"

text \<open>
  What the reader needs from outside this file. Arrays are values of a type \<open>'arr\<close> that the
  reader only passes on, times are values of \<open>'t\<close>, handles of hierarchical stores are values
  of \<open>'h\<close>. \<open>xdmf_to_numpy_type\<close> and \<open>xdmf_to_meshio_type\<close> are the tables of
  \<open>xdmf/common.py\<close>, \<open>translate_mixed_cells\<close> is the function of that module and
  \<open>cell_data_from_raw\<close> the one of \<open>_common.py\<close>; none of them is in the sources at hand, so
  they are parameters. \<open>array_from_text\<close> is \<open>numpy.array(tokens, dtype).reshape(dims)\<close>,
  \<open>array_from_file\<close> is \<open>numpy.fromfile(path, dtype).reshape(dims)\<close>, \<open>h5_open\<close> is
  \<open>h5py.File(path, "r")\<close>, \<open>h5_dataset\<close> walks the keys of a path from the handle and reads
  the dataset, and \<open>py_float\<close> is \<open>float\<close> on text (\<open>None\<close> is \<open>ValueError\<close>).
\<close>

record ('arr, 't, 'h) reader_env =
  xdmf_to_numpy_type :: "string \<times> string \<Rightarrow> string option"
  xdmf_to_meshio_type :: "string \<Rightarrow> string option"
  array_from_text :: "string list \<Rightarrow> string \<Rightarrow> int list \<Rightarrow> error + 'arr"
  array_from_file :: "string \<Rightarrow> string \<Rightarrow> int list \<Rightarrow> error + 'arr"
  h5_open :: "string \<Rightarrow> error + 'h"
  h5_dataset :: "'h \<Rightarrow> string list \<Rightarrow> error + 'arr"
  py_float :: "string \<Rightarrow> 't option"
  translate_mixed_cells :: "'arr \<Rightarrow> error + (string \<times> 'arr) list"
  cell_data_from_raw ::
    "(string \<times> 'arr) list \<Rightarrow> (string \<times> 'arr) list \<Rightarrow> error + (string \<times> (string \<times> 'arr) list) list"

section \<open>XDMF: the time series reader\<close>

text \<open>
  The attributes of a \<open>TimeSeriesReader\<close>. \<open>rd_cells\<close> is \<open>None\<close> until \<open>read_points_cells\<close>
  has set it. A dictionary is the list of its items in insertion order.
\<close>

record ('arr, 'h) reader =
  rd_filename :: string
  rd_domain :: element
  rd_collection :: "element list"
  rd_num_steps :: nat
  rd_cells :: "(string \<times> 'arr) list option"
  rd_hdf5_files :: "(string \<times> 'h) list"
  rd_mesh_grid :: element

fun dict_set :: "'k \<Rightarrow> 'v \<Rightarrow> ('k \<times> 'v) list \<Rightarrow> ('k \<times> 'v) list" where
  "dict_set k v [] = [(k, v)]"
| "dict_set k v ((k', v') # kvs) = (if k = k' then (k, v) # kvs else (k', v') # dict_set k v kvs)"

text \<open>
  Lines 34 to 60 of \<open>__init__\<close>: the checks on the root and its one domain, and the search
  for the collection grid (the last child of the domain whose \<open>GridType\<close> is \<open>Collection\<close>;
  a child without \<open>GridType\<close> is a \<open>KeyError\<close>).
\<close>

fun last_with_grid_type :: "string \<Rightarrow> element list \<Rightarrow> element option \<Rightarrow> error + element option" where
  "last_with_grid_type ty [] found = Inr found"
| "last_with_grid_type ty (g # gs) found =
     (case attr g ''GridType'' of
        Inl e \<Rightarrow> Inl e
      | Inr v \<Rightarrow> last_with_grid_type ty gs (if v = ty then Some g else found))"

definition find_collection :: "element \<Rightarrow> error + (element \<times> element)" where
  "find_collection tree_root =
     (if el_tag tree_root \<noteq> ''Xdmf'' then Inl (ReadError [])
      else case attr tree_root ''Version'' of
        Inl e \<Rightarrow> Inl e
      | Inr version \<Rightarrow>
         if before_dot version \<noteq> ''3''
         then Inl (ReadError (''Unknown XDMF version '' @ version @ ''.''))
         else if length (el_children tree_root) \<noteq> 1 then Inl (ReadError [])
         else let domain = el_children tree_root ! 0 in
           if el_tag domain \<noteq> ''Domain'' then Inl (ReadError [])
           else case last_with_grid_type ''Collection'' (el_children domain) None of
             Inl e \<Rightarrow> Inl e
           | Inr None \<Rightarrow> Inl (ReadError ''Couldn't find the mesh grid'')
           | Inr (Some collection_grid) \<Rightarrow>
              if el_tag collection_grid \<noteq> ''Grid'' then Inl (ReadError [])
              else case attr collection_grid ''CollectionType'' of
                Inl e \<Rightarrow> Inl e
              | Inr ct \<Rightarrow>
                 if ct \<noteq> ''Temporal'' then Inl (ReadError [])
                 else Inr (domain, collection_grid))"

text \<open>
  Lines 68 to 85: the uniform grid. First the children of the domain (the last one whose
  \<open>GridType\<close> is \<open>Uniform\<close>), then, only when that found nothing, the first grid of the
  collection whose \<open>GridType\<close> is \<open>Uniform\<close>, where a grid without \<open>GridType\<close> is passed over.
\<close>

fun first_uniform :: "element list \<Rightarrow> element option" where
  "first_uniform [] = None"
| "first_uniform (g # gs) =
     (case attr g ''GridType'' of
        Inl e \<Rightarrow> first_uniform gs
      | Inr v \<Rightarrow> if v = ''Uniform'' then Some g else first_uniform gs)"

definition find_mesh_grid :: "element list \<Rightarrow> element list \<Rightarrow> error + element" where
  "find_mesh_grid grids collection =
     (case last_with_grid_type ''Uniform'' grids None of
        Inl e \<Rightarrow> Inl e
      | Inr found \<Rightarrow>
         (let mesh_grid = (if found = None then first_uniform collection else found) in
          case mesh_grid of
            None \<Rightarrow> Inl (ReadError ''Couldn't find the mesh grid'')
          | Some g \<Rightarrow> if el_tag g \<noteq> ''Grid'' then Inl (ReadError []) else Inr g))"

definition TimeSeriesReader_init :: "string \<Rightarrow> element \<Rightarrow> error + ('arr, 'h) reader" where
  "TimeSeriesReader_init filename tree_root =
     (case find_collection tree_root of
        Inl e \<Rightarrow> Inl e
      | Inr (domain, collection_grid) \<Rightarrow>
         (case find_mesh_grid (el_children domain) (el_children collection_grid) of
            Inl e \<Rightarrow> Inl e
          | Inr g \<Rightarrow>
             Inr \<lparr>rd_filename = filename, rd_domain = domain,
                  rd_collection = el_children collection_grid,
                  rd_num_steps = length (el_children collection_grid),
                  rd_cells = None, rd_hdf5_files = [], rd_mesh_grid = g\<rparr>))"

text \<open>\<open>__exit__\<close>: every cached handle is closed; the result is the list of the handles closed.\<close>

definition TimeSeriesReader_exit :: "('arr, 'h) reader \<Rightarrow> 'h list" where
  "TimeSeriesReader_exit self = map snd (rd_hdf5_files self)"

text \<open>\<open>s.split(sep)\<close> for a separator of one character.\<close>

fun split_on :: "char \<Rightarrow> string \<Rightarrow> string list" where
  "split_on c [] = [[]]"
| "split_on c (x # xs) =
     (if x = c then [] # split_on c xs
      else (case split_on c xs of p # ps \<Rightarrow> (x # p) # ps | [] \<Rightarrow> [[x]]))"

text \<open>\<open>[int(d) for d in s.split()]\<close>\<close>

fun ints_of :: "string list \<Rightarrow> error + int list" where
  "ints_of [] = Inr []"
| "ints_of (d # ds) =
     (case py_int d of
        None \<Rightarrow> Inl (ValueError [])
      | Some i \<Rightarrow> (case ints_of ds of Inl e \<Rightarrow> Inl e | Inr is \<Rightarrow> Inr (i # is)))"

text \<open>
  \<open>_read_data_item\<close>: the array or the exception, and the reader with its cache of store
  handles, which grows when a store is opened.
\<close>

definition data_type_of :: "element \<Rightarrow> error + string" where
  "data_type_of data_item =
     (if map_of (el_attrib data_item) ''DataType'' \<noteq> None
      then (if map_of (el_attrib data_item) ''NumberType'' \<noteq> None then Inl (ReadError [])
            else attr data_item ''DataType'')
      else if map_of (el_attrib data_item) ''NumberType'' \<noteq> None
      then attr data_item ''NumberType''
      else Inr ''Float'')"

definition precision_of :: "element \<Rightarrow> string" where
  "precision_of data_item =
     (case map_of (el_attrib data_item) ''Precision'' of None \<Rightarrow> ''4'' | Some p \<Rightarrow> p)"

definition numpy_type_of ::
  "('arr, 't, 'h) reader_env \<Rightarrow> string \<Rightarrow> string \<Rightarrow> error + string" where
  "numpy_type_of env data_type precision =
     (case xdmf_to_numpy_type env (data_type, precision) of None \<Rightarrow> Inl KeyError | Some t \<Rightarrow> Inr t)"

definition read_hdf ::
  "('arr, 't, 'h) reader_env \<Rightarrow> ('arr, 'h) reader \<Rightarrow> string \<Rightarrow> (error + 'arr) \<times> ('arr, 'h) reader" where
  "read_hdf env self info =
     (case split_on (CHR '':'') info of
        [filename, h5path] \<Rightarrow>
          (let full_hdf5_path = path_join (dirname (rd_filename self)) filename in
           case (case map_of (rd_hdf5_files self) full_hdf5_path of
                   Some f \<Rightarrow> Inr (f, self)
                 | None \<Rightarrow>
                    (case h5_open env full_hdf5_path of
                       Inl e \<Rightarrow> Inl e
                     | Inr f \<Rightarrow>
                        Inr (f, self\<lparr>rd_hdf5_files := rd_hdf5_files self @ [(full_hdf5_path, f)]\<rparr>))) of
             Inl e \<Rightarrow> (Inl e, self)
           | Inr (f, self1) \<Rightarrow>
              if h5path = [] then (Inl IndexError, self1)
              else if hd h5path \<noteq> CHR ''/'' then (Inl (ReadError []), self1)
              else (h5_dataset env f (split_on (CHR ''/'') (tl h5path)), self1))
      | _ \<Rightarrow> (Inl (ValueError []), self))"

definition read_data_item ::
  "('arr, 't, 'h) reader_env \<Rightarrow> ('arr, 'h) reader \<Rightarrow> element \<Rightarrow> (error + 'arr) \<times> ('arr, 'h) reader" where
  "read_data_item env self data_item =
     (case attr data_item ''Dimensions'' of
        Inl e \<Rightarrow> (Inl e, self)
      | Inr dimensions \<Rightarrow>
     (case ints_of (split_ws dimensions) of
        Inl e \<Rightarrow> (Inl e, self)
      | Inr dims \<Rightarrow>
     (case data_type_of data_item of
        Inl e \<Rightarrow> (Inl e, self)
      | Inr data_type \<Rightarrow>
     (case attr data_item ''Format'' of
        Inl e \<Rightarrow> (Inl e, self)
      | Inr fmt \<Rightarrow>
         if fmt = ''XML'' then
           (case el_text data_item of
              None \<Rightarrow> (Inl (AttributeError ''split''), self)
            | Some t \<Rightarrow>
               (case numpy_type_of env data_type (precision_of data_item) of
                  Inl e \<Rightarrow> (Inl e, self)
                | Inr ty \<Rightarrow> (array_from_text env (split_ws t) ty dims, self)))
         else if fmt = ''Binary'' then
           (case el_text data_item of
              None \<Rightarrow> (Inl (AttributeError ''strip''), self)
            | Some t \<Rightarrow>
               (case numpy_type_of env data_type (precision_of data_item) of
                  Inl e \<Rightarrow> (Inl e, self)
                | Inr ty \<Rightarrow> (array_from_file env (strip t) ty dims, self)))
         else if fmt \<noteq> ''HDF'' then
           (Inl (ReadError (''Unknown XDMF Format '' @ [CHR 0x27] @ fmt @ [CHR 0x27] @ ''.'')), self)
         else
           (case el_text data_item of
              None \<Rightarrow> (Inl (AttributeError ''strip''), self)
            | Some t \<Rightarrow> read_hdf env self (strip t))))))"

text \<open>
  \<open>read_points_cells\<close>: the loop over the children of the mesh grid carries the points and
  the cells found so far, and the reader.
\<close>

definition cell_type_of :: "element \<Rightarrow> error + string" where
  "cell_type_of c =
     (if map_of (el_attrib c) ''Type'' \<noteq> None
      then (if map_of (el_attrib c) ''TopologyType'' \<noteq> None then Inl (ReadError [])
            else attr c ''Type'')
      else attr c ''TopologyType'')"

fun read_grid_children ::
  "('arr, 't, 'h) reader_env \<Rightarrow> element list \<Rightarrow> 'arr option \<Rightarrow> (string \<times> 'arr) list
     \<Rightarrow> ('arr, 'h) reader
     \<Rightarrow> (error + ('arr option \<times> (string \<times> 'arr) list)) \<times> ('arr, 'h) reader" where
  "read_grid_children env [] points cells self = (Inr (points, cells), self)"
| "read_grid_children env (c # cs) points cells self =
     (if el_tag c = ''Topology'' then
        (if length (el_children c) \<noteq> 1 then (Inl (ReadError []), self)
         else case read_data_item env self (el_children c ! 0) of
           (Inl e, self1) \<Rightarrow> (Inl e, self1)
         | (Inr data, self1) \<Rightarrow>
            (case cell_type_of c of
               Inl e \<Rightarrow> (Inl e, self1)
             | Inr cell_type \<Rightarrow>
                if cell_type = ''Mixed'' then
                  (case translate_mixed_cells env data of
                     Inl e \<Rightarrow> (Inl e, self1)
                   | Inr cells1 \<Rightarrow> read_grid_children env cs points cells1 self1)
                else
                  (case xdmf_to_meshio_type env cell_type of
                     None \<Rightarrow> (Inl KeyError, self1)
                   | Some meshio_type \<Rightarrow>
                      read_grid_children env cs points (dict_set meshio_type data cells) self1)))
      else if el_tag c = ''Geometry'' then
        (if (case map_of (el_attrib c) ''GeometryType'' of
               None \<Rightarrow> False
             | Some geometry_type \<Rightarrow> geometry_type \<notin> set [''XY'', ''XYZ''])
         then (Inl (ReadError []), self)
         else if length (el_children c) \<noteq> 1 then (Inl (ReadError []), self)
         else case read_data_item env self (el_children c ! 0) of
           (Inl e, self1) \<Rightarrow> (Inl e, self1)
         | (Inr data, self1) \<Rightarrow> read_grid_children env cs (Some data) cells self1)
      else read_grid_children env cs points cells self)"

definition read_points_cells ::
  "('arr, 't, 'h) reader_env \<Rightarrow> ('arr, 'h) reader
     \<Rightarrow> (error + ('arr option \<times> (string \<times> 'arr) list)) \<times> ('arr, 'h) reader" where
  "read_points_cells env self =
     (case read_grid_children env (el_children (rd_mesh_grid self)) None [] self of
        (Inl e, self1) \<Rightarrow> (Inl e, self1)
      | (Inr (points, cells), self1) \<Rightarrow> (Inr (points, cells), self1\<lparr>rd_cells := Some cells\<rparr>))"

text \<open>
  \<open>read_data(k)\<close>. \<open>self.collection[k]\<close> is list indexing: a negative \<open>k\<close> counts from the end
  and an index out of range is an \<open>IndexError\<close>. The loop over the children of the frame
  carries \<open>t\<close>, the point data and the raw cell data, and the reader.
\<close>

definition list_index :: "'a list \<Rightarrow> int \<Rightarrow> error + 'a" where
  "list_index xs k =
     (let j = (if k < 0 then k + int (length xs) else k) in
      if 0 \<le> j \<and> j < int (length xs) then Inr (xs ! nat j) else Inl IndexError)"

fun read_frame_children ::
  "('arr, 't, 'h) reader_env \<Rightarrow> element list \<Rightarrow> 't option \<Rightarrow> (string \<times> 'arr) list
     \<Rightarrow> (string \<times> 'arr) list \<Rightarrow> ('arr, 'h) reader
     \<Rightarrow> (error + ('t option \<times> (string \<times> 'arr) list \<times> (string \<times> 'arr) list)) \<times> ('arr, 'h) reader" where
  "read_frame_children env [] t point_data cell_data_raw self =
     (Inr (t, point_data, cell_data_raw), self)"
| "read_frame_children env (c # cs) t point_data cell_data_raw self =
     (if el_tag c = ''Time'' then
        (case attr c ''Value'' of
           Inl e \<Rightarrow> (Inl e, self)
         | Inr v \<Rightarrow>
            (case py_float env v of
               None \<Rightarrow> (Inl (ValueError []), self)
             | Some t1 \<Rightarrow> read_frame_children env cs (Some t1) point_data cell_data_raw self))
      else if el_tag c = ''Attribute'' then
        (case attr c ''Name'' of
           Inl e \<Rightarrow> (Inl e, self)
         | Inr name \<Rightarrow>
            if length (el_children c) \<noteq> 1 then (Inl (ReadError []), self)
            else case read_data_item env self (el_children c ! 0) of
              (Inl e, self1) \<Rightarrow> (Inl e, self1)
            | (Inr data, self1) \<Rightarrow>
               (case attr c ''Center'' of
                  Inl e \<Rightarrow> (Inl e, self1)
                | Inr center \<Rightarrow>
                   if center = ''Node''
                   then read_frame_children env cs t (dict_set name data point_data) cell_data_raw self1
                   else if center \<noteq> ''Cell'' then (Inl (ReadError []), self1)
                   else read_frame_children env cs t point_data (dict_set name data cell_data_raw) self1))
      else read_frame_children env cs t point_data cell_data_raw self)"

definition TimeSeriesReader_read_data ::
  "('arr, 't, 'h) reader_env \<Rightarrow> ('arr, 'h) reader \<Rightarrow> int
     \<Rightarrow> (error + ('t \<times> (string \<times> 'arr) list \<times> (string \<times> (string \<times> 'arr) list) list))
         \<times> ('arr, 'h) reader" where
  "TimeSeriesReader_read_data env self k =
     (case list_index (rd_collection self) k of
        Inl e \<Rightarrow> (Inl e, self)
      | Inr frame \<Rightarrow>
         (case read_frame_children env (el_children frame) None [] [] self of
            (Inl e, self1) \<Rightarrow> (Inl e, self1)
          | (Inr (t, point_data, cell_data_raw), self1) \<Rightarrow>
             (case rd_cells self1 of
                None \<Rightarrow> (Inl (ReadError []), self1)
              | Some cells \<Rightarrow>
                 (case cell_data_from_raw env cells cell_data_raw of
                    Inl e \<Rightarrow> (Inl e, self1)
                  | Inr cell_data \<Rightarrow>
                     (case t of
                        None \<Rightarrow> (Inl (ReadError []), self1)
                      | Some t1 \<Rightarrow> (Inr (t1, point_data, cell_data), self1))))))"

text \<open>
  For the statements about the search: a grid whose \<open>GridType\<close> is \<open>Uniform\<close>, and the check
  of the tag that ends the search.
\<close>

definition uniform :: "element \<Rightarrow> bool" where
  "uniform g \<longleftrightarrow> map_of (el_attrib g) ''GridType'' = Some ''Uniform''"

definition has_grid_type :: "element \<Rightarrow> bool" where
  "has_grid_type g \<longleftrightarrow> map_of (el_attrib g) ''GridType'' \<noteq> None"

definition check_grid_tag :: "element \<Rightarrow> error + element" where
  "check_grid_tag g = (if el_tag g \<noteq> ''Grid'' then Inl (ReadError []) else Inr g)"

text \<open>
  Three documents: one with a uniform grid beside the collection and another inside it, one
  with a uniform grid inside the collection only, and one with none.
\<close>

definition inner_grid :: element where
  "inner_grid = Element ''Grid'' [(''Name'', ''inner''), (''GridType'', ''Uniform'')] None []"

definition outer_grid :: element where
  "outer_grid = Element ''Grid'' [(''Name'', ''mesh''), (''GridType'', ''Uniform'')] None []"

definition frame_grid :: element where
  "frame_grid = Element ''Grid'' [] None [Element ''Time'' [(''Value'', ''0.5'')] None []]"

definition temporal :: "element list \<Rightarrow> element" where
  "temporal frames =
     Element ''Grid''
       [(''Name'', ''TimeSeries_meshio''), (''GridType'', ''Collection''), (''CollectionType'', ''Temporal'')]
       None frames"

definition document :: "element list \<Rightarrow> element" where
  "document grids = Element ''Xdmf'' [(''Version'', ''3.0'')] None [Element ''Domain'' [] None grids]"

definition doc_both :: element where
  "doc_both = document [temporal [frame_grid, inner_grid], outer_grid]"

definition doc_nested :: element where
  "doc_nested = document [temporal [frame_grid, inner_grid]]"

definition doc_neither :: element where
  "doc_neither = document [temporal [frame_grid]]"

text \<open>
  For the statements about frames: the time that a \<open>Time\<close> element gives, if its \<open>Value\<close> is
  there and is a number; and an environment to run the reader in, where times are kept as
  their text, there are no tables and no arrays can be read, and no cell data comes back.
\<close>

definition time_of :: "('arr, 't, 'h) reader_env \<Rightarrow> element \<Rightarrow> 't option" where
  "time_of env c = (case map_of (el_attrib c) ''Value'' of None \<Rightarrow> None | Some v \<Rightarrow> py_float env v)"

definition example_env :: "(unit, string, unit) reader_env" where
  "example_env =
     \<lparr>xdmf_to_numpy_type = (\<lambda>_. None), xdmf_to_meshio_type = (\<lambda>_. None),
      array_from_text = (\<lambda>_ _ _. Inl (ValueError [])), array_from_file = (\<lambda>_ _ _. Inl (ValueError [])),
      h5_open = (\<lambda>_. Inr ()), h5_dataset = (\<lambda>_ _. Inl KeyError),
      py_float = (\<lambda>v. Some v), translate_mixed_cells = (\<lambda>_. Inr []),
      cell_data_from_raw = (\<lambda>cells raw. Inr [])\<rparr>"

definition example_reader :: "(unit, unit) reader" where
  "example_reader =
     \<lparr>rd_filename = ''a.xdmf'',
      rd_domain = Element ''Domain'' [] None [temporal [frame_grid, inner_grid], outer_grid],
      rd_collection = [frame_grid, inner_grid], rd_num_steps = 2, rd_cells = None,
      rd_hdf5_files = [], rd_mesh_grid = outer_grid\<rparr>"

section \<open>XDMF: the time series writer\<close>

text \<open>
  An array with the name of its dtype; the data that leaves the writer is either the points
  and fields (elements of type \<open>'a\<close>) or node indices (integers).
\<close>

datatype 'a payload = Floats "'a ndarray" | Ints "int ndarray"

text \<open>
  What the writer needs from outside this file: the tables of \<open>xdmf/common.py\<close>
  (\<open>numpy_to_xdmf_dtype\<close>, \<open>dtype_to_format_string\<close>, \<open>meshio_to_xdmf_type\<close>,
  \<open>meshio_type_to_xdmf_index\<close>), which are not in the sources at hand, the text that
  \<open>numpy.savetxt\<close> writes for flattened data with a format, and the dtype of the result of
  \<open>numpy.concatenate\<close> for the dtypes of its arguments.
\<close>

record 'a writer_env =
  numpy_to_xdmf_dtype :: "string \<Rightarrow> (string \<times> string) option"
  dtype_to_format_string :: "string \<Rightarrow> string option"
  meshio_to_xdmf_type :: "string \<Rightarrow> string list option"
  meshio_type_to_xdmf_index :: "string \<Rightarrow> int option"
  savetxt :: "string \<Rightarrow> 'a payload \<Rightarrow> string"
  promote_types :: "string list \<Rightarrow> string"

text \<open>
  The attributes of a \<open>TimeSeriesWriter\<close> and, after them, what it has done outside itself.
  \<open>wr_domain\<close> holds the grids appended to the domain after the collection and
  \<open>wr_collection\<close> the frames of the collection. \<open>wr_h5_filename\<close> and \<open>wr_h5_file\<close> are \<open>None\<close>
  as long as the attribute does not exist; the handle of the store is its file name.
  \<open>wr_store\<close> holds the datasets created in the store, \<open>wr_bin_files\<close> the binary files
  written, \<open>wr_xml_out\<close> the tree that \<open>write_xml\<close> wrote last, and \<open>wr_closed\<close> the handles
  closed.
\<close>

record 'a writer =
  wr_filename :: string
  wr_data_format :: string
  wr_data_counter :: nat
  wr_pretty_xml :: bool
  wr_domain :: "element list"
  wr_collection :: "element list"
  wr_has_mesh :: bool
  wr_mesh_name :: "string option"
  wr_h5_filename :: "string option"
  wr_h5_file :: "string option"
  wr_store :: "(string \<times> 'a payload) list"
  wr_bin_files :: "(string \<times> 'a payload) list"
  wr_xml_out :: "element option"
  wr_closed :: "string list"

definition xdmf_file :: "'a writer \<Rightarrow> element" where
  "xdmf_file self =
     Element ''Xdmf'' [(''Version'', ''3.0'')] None
       [Element ''Domain'' [] None
          (Element ''Grid''
             [(''Name'', ''TimeSeries_meshio''), (''GridType'', ''Collection''),
              (''CollectionType'', ''Temporal'')] None (wr_collection self)
           # wr_domain self)]"

definition TimeSeriesWriter_init :: "string \<Rightarrow> bool \<Rightarrow> string \<Rightarrow> error + 'a writer" where
  "TimeSeriesWriter_init filename pretty_xml data_format =
     (if data_format \<notin> set [''XML'', ''Binary'', ''HDF'']
      then Inl (WriteError (''Unknown XDMF data format '' @ [CHR 0x27] @ data_format @ [CHR 0x27]
                   @ '' (use 'XML', 'Binary', or 'HDF'.)''))
      else Inr \<lparr>wr_filename = filename, wr_data_format = data_format, wr_data_counter = 0,
                wr_pretty_xml = pretty_xml, wr_domain = [], wr_collection = [],
                wr_has_mesh = False, wr_mesh_name = None, wr_h5_filename = None, wr_h5_file = None,
                wr_store = [], wr_bin_files = [], wr_xml_out = None, wr_closed = []\<rparr>)"

text \<open>
  \<open>__enter__\<close> opens the store for the format \<open>HDF\<close> only; \<open>__exit__\<close> closes
  \<open>self.h5_file\<close>, an \<open>AttributeError\<close> when the attribute was never set.
\<close>

definition TimeSeriesWriter_enter :: "'a writer \<Rightarrow> 'a writer" where
  "TimeSeriesWriter_enter self =
     (if wr_data_format self = ''HDF''
      then self\<lparr>wr_h5_filename := Some (splitext_root (wr_filename self) @ ''.h5''),
                wr_h5_file := Some (splitext_root (wr_filename self) @ ''.h5'')\<rparr>
      else self)"

definition TimeSeriesWriter_exit :: "'a writer \<Rightarrow> error + 'a writer" where
  "TimeSeriesWriter_exit self =
     (case wr_h5_file self of
        None \<Rightarrow> Inl (AttributeError ''h5_file'')
      | Some h \<Rightarrow> Inr (self\<lparr>wr_closed := wr_closed self @ [h]\<rparr>))"

text \<open>
  \<open>with TimeSeriesWriter(filename, pretty_xml, data_format) as w: pass\<close>: the session that
  writes nothing.
\<close>

definition empty_session :: "string \<Rightarrow> bool \<Rightarrow> string \<Rightarrow> error + 'a writer" where
  "empty_session filename pretty_xml data_format =
     (case TimeSeriesWriter_init filename pretty_xml data_format of
        Inl e \<Rightarrow> Inl e
      | Inr self \<Rightarrow> TimeSeriesWriter_exit (TimeSeriesWriter_enter self))"

text \<open>
  \<open>numpy_to_xml_string\<close>: the text for the data item and the writer after the call.
\<close>

definition numpy_to_xml_string ::
  "'a writer_env \<Rightarrow> 'a writer \<Rightarrow> string \<times> 'a payload \<Rightarrow> error + (string \<times> 'a writer)" where
  "numpy_to_xml_string env self data =
     (if wr_data_format self = ''XML'' then
        (case dtype_to_format_string env (fst data) of
           None \<Rightarrow> Inl KeyError
         | Some fmt \<Rightarrow> Inr (savetxt env fmt (snd data), self))
      else if wr_data_format self = ''Binary'' then
        (let bin_filename = splitext_root (wr_filename self) @ str_nat (wr_data_counter self) @ ''.bin''
         in Inr (bin_filename,
                 self\<lparr>wr_data_counter := wr_data_counter self + 1,
                      wr_bin_files := wr_bin_files self @ [(bin_filename, snd data)]\<rparr>))
      else if wr_data_format self \<noteq> ''HDF'' then Inl (WriteError [])
      else
        (let name = ''data'' @ str_nat (wr_data_counter self) in
         case wr_h5_file self of
           None \<Rightarrow> Inl (AttributeError ''h5_file'')
         | Some h \<Rightarrow>
            (case wr_h5_filename self of
               None \<Rightarrow> Inl (AttributeError ''h5_filename'')
             | Some h5_filename \<Rightarrow>
                Inr (basename h5_filename @ '':/'' @ name,
                     self\<lparr>wr_data_counter := wr_data_counter self + 1,
                          wr_store := wr_store self @ [(name, snd data)]\<rparr>))))"

text \<open>\<open>"{} {}".format(*shape)\<close>: an \<open>IndexError\<close> when the shape has one entry.\<close>

definition format_shape2 :: "nat list \<Rightarrow> error + string" where
  "format_shape2 sh =
     (if length sh < 2 then Inl IndexError
      else Inr (str_nat (sh ! 0) @ '' '' @ str_nat (sh ! 1)))"

definition data_item_element :: "string \<Rightarrow> string \<Rightarrow> string \<Rightarrow> string \<Rightarrow> string \<Rightarrow> element" where
  "data_item_element dt dimension fmt prec txt =
     Element ''DataItem''
       [(''DataType'', dt), (''Dimensions'', dimension), (''Format'', fmt), (''Precision'', prec)]
       (Some txt) []"

text \<open>\<open>points\<close>: the \<open>Geometry\<close> element appended to the grid, and the writer.\<close>

definition points_method ::
  "'a writer_env \<Rightarrow> 'a writer \<Rightarrow> string \<times> 'a ndarray \<Rightarrow> error + (element \<times> 'a writer)" where
  "points_method env self points =
     (if length (shape (snd points)) < 2 then Inl IndexError
      else if shape (snd points) ! 1 \<noteq> 2 \<and> shape (snd points) ! 1 \<noteq> 3
      then Inl (WriteError ''Need 3D points.'')
      else
        (let geometry_type = (if shape (snd points) ! 1 = 2 then ''XY'' else ''XYZ'') in
         case numpy_to_xdmf_dtype env (fst points) of
           None \<Rightarrow> Inl KeyError
         | Some (dt, prec) \<Rightarrow>
            (case format_shape2 (shape (snd points)) of
               Inl e \<Rightarrow> Inl e
             | Inr dimension \<Rightarrow>
                (case numpy_to_xml_string env self (fst points, Floats (snd points)) of
                   Inl e \<Rightarrow> Inl e
                 | Inr (txt, self1) \<Rightarrow>
                    Inr (Element ''Geometry'' [(''GeometryType'', geometry_type)] None
                           [data_item_element dt dimension (wr_data_format self) prec txt],
                         self1)))))"

text \<open>
  The pieces of the mixed branch of \<open>cells\<close>. \<open>numpy.insert(a, 0, v, axis=1)\<close> puts a column
  of \<open>v\<close> before the columns of a two-dimensional array and is an \<open>AxisError\<close> on a flat one;
  \<open>mixed_stream\<close> is the argument of \<open>numpy.concatenate\<close> joined: for each item of the
  dictionary, in its order, the array with the column of its XDMF index, flattened.
\<close>

fun insert_column :: "int \<Rightarrow> int ndarray \<Rightarrow> error + int ndarray" where
  "insert_column v (Arr2 m rows) = Inr (Arr2 (Suc m) (map ((#) v) rows))"
| "insert_column v (Arr1 xs) = Inl AxisError"

fun flatten :: "'a ndarray \<Rightarrow> 'a list" where
  "flatten (Arr1 xs) = xs"
| "flatten (Arr2 m rows) = concat rows"

fun mixed_stream :: "'a writer_env \<Rightarrow> (string \<times> string \<times> int ndarray) list \<Rightarrow> error + int list" where
  "mixed_stream env [] = Inr []"
| "mixed_stream env ((key, dt, value) # rest) =
     (case meshio_type_to_xdmf_index env key of
        None \<Rightarrow> Inl KeyError
      | Some i \<Rightarrow>
         (case insert_column i value of
            Inl e \<Rightarrow> Inl e
          | Inr a \<Rightarrow>
             (case mixed_stream env rest of
                Inl e \<Rightarrow> Inl e
              | Inr s \<Rightarrow> Inr (flatten a @ s))))"

definition total_num_cells :: "(string \<times> string \<times> int ndarray) list \<Rightarrow> nat" where
  "total_num_cells cells = sum_list (map (\<lambda>(key, dt, c). shape c ! 0) cells)"

definition total_num_cell_items :: "(string \<times> string \<times> int ndarray) list \<Rightarrow> nat" where
  "total_num_cell_items cells = sum_list (map (\<lambda>(key, dt, c). prod_list (shape c)) cells)"

text \<open>
  Lines 409 to 411: with a key \<open>line\<close>, the array under it is replaced in the dictionary that
  the caller passed, and its length is added to the dimension.
\<close>

definition prepend_line_arity ::
  "(string \<times> string \<times> int ndarray) list \<Rightarrow> nat
     \<Rightarrow> error + ((string \<times> string \<times> int ndarray) list \<times> nat)" where
  "prepend_line_arity cells dimension =
     (case map_of cells ''line'' of
        None \<Rightarrow> Inr (cells, dimension)
      | Some (dt, value) \<Rightarrow>
         (case insert_column 2 value of
            Inl e \<Rightarrow> Inl e
          | Inr a \<Rightarrow> Inr (dict_set ''line'' (dt, a) cells, dimension + shape a ! 0)))"

text \<open>
  \<open>cells\<close>: the \<open>Topology\<close> element appended to the grid (none for an empty dictionary) and
  the writer, or the exception; and, in either case, the dictionary of the caller after the
  call. The state of the writer after an exception is not modelled.
\<close>

definition cells_method ::
  "'a writer_env \<Rightarrow> 'a writer \<Rightarrow> (string \<times> string \<times> int ndarray) list
     \<Rightarrow> (error + (element option \<times> 'a writer)) \<times> (string \<times> string \<times> int ndarray) list" where
  "cells_method env self cells =
     (if length cells = 1 then
        (case cells ! 0 of (meshio_type, dtype, value) \<Rightarrow>
           (case meshio_to_xdmf_type env meshio_type of
              None \<Rightarrow> (Inl KeyError, cells)
            | Some [] \<Rightarrow> (Inl IndexError, cells)
            | Some (xdmf_type # _) \<Rightarrow>
               (case numpy_to_xdmf_dtype env dtype of
                  None \<Rightarrow> (Inl KeyError, cells)
                | Some (dt, prec) \<Rightarrow>
                   (case format_shape2 (shape value) of
                      Inl e \<Rightarrow> (Inl e, cells)
                    | Inr dimension \<Rightarrow>
                       (case numpy_to_xml_string env self (dtype, Ints value) of
                          Inl e \<Rightarrow> (Inl e, cells)
                        | Inr (txt, self1) \<Rightarrow>
                           (Inr (Some (Element ''Topology''
                                    [(''TopologyType'', xdmf_type),
                                     (''NumberOfElements'', str_nat (shape value ! 0))] None
                                    [data_item_element dt dimension (wr_data_format self) prec txt]),
                                 self1), cells))))))
      else if length cells > 1 then
        (case prepend_line_arity cells (total_num_cell_items cells + total_num_cells cells) of
           Inl e \<Rightarrow> (Inl e, cells)
         | Inr (cells1, dimension) \<Rightarrow>
            (case mixed_stream env cells1 of
               Inl e \<Rightarrow> (Inl e, cells1)
             | Inr cd \<Rightarrow>
                (case numpy_to_xdmf_dtype env (promote_types env (map (\<lambda>(key, dt, c). dt) cells1)) of
                   None \<Rightarrow> (Inl KeyError, cells1)
                 | Some (dt, prec) \<Rightarrow>
                    (case numpy_to_xml_string env self
                            (promote_types env (map (\<lambda>(key, dt, c). dt) cells1), Ints (Arr1 cd)) of
                       Inl e \<Rightarrow> (Inl e, cells1)
                     | Inr (txt, self1) \<Rightarrow>
                        (Inr (Some (Element ''Topology''
                                 [(''TopologyType'', ''Mixed''),
                                  (''NumberOfElements'', str_nat (total_num_cells cells))] None
                                 [data_item_element dt (str_nat dimension) (wr_data_format self) prec txt]),
                              self1), cells1)))))
      else (Inr (None, self), cells))"

text \<open>
  \<open>write_points_cells\<close>. \<open>write_xml\<close> is a function of \<open>_common.py\<close>, which is not in the
  sources at hand; Modelled from the spec: it serialises the tree to the file of the writer,
  which is recorded in \<open>wr_xml_out\<close>.
\<close>

definition write_points_cells ::
  "'a writer_env \<Rightarrow> 'a writer \<Rightarrow> string \<times> 'a ndarray \<Rightarrow> (string \<times> string \<times> int ndarray) list
     \<Rightarrow> (error + 'a writer) \<times> (string \<times> string \<times> int ndarray) list" where
  "write_points_cells env self points cells =
     (case points_method env (self\<lparr>wr_mesh_name := Some ''mesh''\<rparr>) points of
        Inl e \<Rightarrow> (Inl e, cells)
      | Inr (geometry, self1) \<Rightarrow>
         (case cells_method env self1 cells of
            (Inl e, cells1) \<Rightarrow> (Inl e, cells1)
          | (Inr (topology, self2), cells1) \<Rightarrow>
             (let grid = Element ''Grid'' [(''Name'', ''mesh''), (''GridType'', ''Uniform'')] None
                           (geometry # (case topology of None \<Rightarrow> [] | Some t \<Rightarrow> [t]));
                  self3 = self2\<lparr>wr_domain := wr_domain self2 @ [grid], wr_has_mesh := True\<rparr>
              in (Inr (self3\<lparr>wr_xml_out := Some (xdmf_file self3)\<rparr>), cells1))))"

text \<open>
  An environment to run the writer in, with the entries of the tables that the examples
  use, and a mesh of one triangle and two lines; the coordinates are integers here.
\<close>

definition example_writer_env :: "int writer_env" where
  "example_writer_env =
     \<lparr>numpy_to_xdmf_dtype = map_of [(''int64'', (''Int'', ''8'')), (''float64'', (''Float'', ''8''))],
      dtype_to_format_string = map_of [(''int64'', ''%d''), (''float64'', ''%.16e'')],
      meshio_to_xdmf_type = map_of [(''line'', [''Polyline'']), (''triangle'', [''Triangle''])],
      meshio_type_to_xdmf_index = map_of [(''vertex'', 1), (''line'', 2), (''triangle'', 4)],
      savetxt = (\<lambda>fmt p. case p of Ints a \<Rightarrow> concat (map (\<lambda>i. str_int i @ nl) (flatten a))
                              | Floats a \<Rightarrow> concat (map (\<lambda>i. str_int i @ nl) (flatten a))),
      promote_types = (\<lambda>ds. if ds = [] then ''float64'' else hd ds)\<rparr>"

definition example_writer :: "int writer" where
  "example_writer =
     \<lparr>wr_filename = ''out.xdmf'', wr_data_format = ''XML'', wr_data_counter = 0,
      wr_pretty_xml = True, wr_domain = [], wr_collection = [],
      wr_has_mesh = False, wr_mesh_name = None, wr_h5_filename = None, wr_h5_file = None,
      wr_store = [], wr_bin_files = [], wr_xml_out = None, wr_closed = []\<rparr>"

definition example_points :: "string \<times> int ndarray" where
  "example_points = (''float64'', Arr2 2 [[0, 0], [1, 0], [0, 1]])"

definition example_cells :: "(string \<times> string \<times> int ndarray) list" where
  "example_cells =
     [(''triangle'', ''int64'', Arr2 3 [[0, 1, 2]]), (''line'', ''int64'', Arr2 2 [[0, 1], [1, 2]])]"

text \<open>
  For the statements about the mixed topology: every array of the dictionary is
  two-dimensional with rows of its width.
\<close>

definition mixed_wf :: "(string \<times> string \<times> int ndarray) list \<Rightarrow> bool" where
  "mixed_wf cells \<longleftrightarrow> list_all (\<lambda>(key, dt, c). length (shape c) = 2 \<and> wf_array c) cells"

definition cells_with_type :: "(string \<times> string \<times> int ndarray) list \<Rightarrow> nat" where
  "cells_with_type cells = sum_list (map (\<lambda>(key, dt, c). shape c ! 0 * (shape c ! 1 + 1)) cells)"

definition line_cells :: "(string \<times> string \<times> int ndarray) list \<Rightarrow> nat" where
  "line_cells cells = (case map_of cells ''line'' of None \<Rightarrow> 0 | Some (dt, c) \<Rightarrow> shape c ! 0)"

chapter \<open>Properties\<close>

section \<open>Version dispatch\<close>

lemma readers_keys_sorted: "sort (map fst readers) = [''2'', ''4'', ''4.0'', ''4.1'']"
  by code_simp

text \<open>
  C3. The reader for a format version is the table entry for the exact version string if
  there is one, otherwise the entry for the text before the first dot; \<open>"4"\<close> and \<open>"4.0"\<close>
  select the same reader; a version that matches neither way, such as \<open>"9.9"\<close>, is a
  \<open>ValueError\<close> whose message holds the sorted list of the known versions and the
  requested version. \<open>read_buffer\<close> makes this selection on the version its header gives.
\<close>

theorem version_dispatch:
  "(map_of readers v = Some r \<longrightarrow> select_codec readers v = Inr r)
   \<and> (map_of readers v = None \<and> map_of readers (before_dot v) = Some r
        \<longrightarrow> select_codec readers v = Inr r)
   \<and> (map_of readers v = None \<and> map_of readers (before_dot v) = None
        \<longrightarrow> select_codec readers v =
              Inl (ValueError (''Need mesh format in ['' @ [CHR 0x27] @ ''2'' @ [CHR 0x27] @ '', ''
                     @ [CHR 0x27] @ ''4'' @ [CHR 0x27] @ '', '' @ [CHR 0x27] @ ''4.0'' @ [CHR 0x27]
                     @ '', '' @ [CHR 0x27] @ ''4.1'' @ [CHR 0x27] @ ''] (got '' @ v @ '')'')))
   \<and> select_codec readers ''4'' = select_codec readers ''4.0''
   \<and> select_codec readers ''4'' = Inr Gmsh40
   \<and> select_codec readers ''9.9'' =
        Inl (ValueError (''Need mesh format in ['' @ [CHR 0x27] @ ''2'' @ [CHR 0x27] @ '', ''
               @ [CHR 0x27] @ ''4'' @ [CHR 0x27] @ '', '' @ [CHR 0x27] @ ''4.0'' @ [CHR 0x27]
               @ '', '' @ [CHR 0x27] @ ''4.1'' @ [CHR 0x27] @ ''] (got 9.9)''))
   \<and> (skip_comments (strip (fst (readline f))) (snd (readline f)) = Some (''$MeshFormat'', f1)
        \<and> read_header f1 = Some (Inr (v, data_size, is_ascii, f2))
        \<longrightarrow> read_buffer f =
              Some (case select_codec readers v of
                      Inl e \<Rightarrow> Inl (Py e)
                    | Inr reader \<Rightarrow> Inr (reader, f2, is_ascii, data_size)))"
proof -
  have exact: "map_of readers v = Some r \<longrightarrow> select_codec readers v = Inr r"
    by (simp add: select_codec_def)
  have prefix: "map_of readers v = None \<and> map_of readers (before_dot v) = Some r
      \<longrightarrow> select_codec readers v = Inr r"
    by (simp add: select_codec_def)
  have neither: "map_of readers v = None \<and> map_of readers (before_dot v) = None
      \<longrightarrow> select_codec readers v =
              Inl (ValueError (''Need mesh format in ['' @ [CHR 0x27] @ ''2'' @ [CHR 0x27] @ '', ''
                     @ [CHR 0x27] @ ''4'' @ [CHR 0x27] @ '', '' @ [CHR 0x27] @ ''4.0'' @ [CHR 0x27]
                     @ '', '' @ [CHR 0x27] @ ''4.1'' @ [CHR 0x27] @ ''] (got '' @ v @ '')''))"
    by (simp add: select_codec_def need_format_msg_def readers_keys_sorted repr_str_list_def)
  have four: "select_codec readers ''4'' = Inr Gmsh40"
    by (simp add: select_codec_def readers_def)
  have four_zero: "select_codec readers ''4.0'' = Inr Gmsh40"
    by (simp add: select_codec_def readers_def)
  have nine: "map_of readers ''9.9'' = None \<and> map_of readers (before_dot ''9.9'') = None"
    by (simp add: readers_def before_dot_def)
  have unknown: "select_codec readers ''9.9'' =
        Inl (ValueError (''Need mesh format in ['' @ [CHR 0x27] @ ''2'' @ [CHR 0x27] @ '', ''
               @ [CHR 0x27] @ ''4'' @ [CHR 0x27] @ '', '' @ [CHR 0x27] @ ''4.0'' @ [CHR 0x27]
               @ '', '' @ [CHR 0x27] @ ''4.1'' @ [CHR 0x27] @ ''] (got 9.9)''))"
    using nine
    by (simp add: select_codec_def need_format_msg_def readers_keys_sorted repr_str_list_def)
  have buffer: "skip_comments (strip (fst (readline f))) (snd (readline f)) = Some (''$MeshFormat'', f1)
        \<and> read_header f1 = Some (Inr (v, data_size, is_ascii, f2))
        \<longrightarrow> read_buffer f =
              Some (case select_codec readers v of
                      Inl e \<Rightarrow> Inl (Py e)
                    | Inr reader \<Rightarrow> Inr (reader, f2, is_ascii, data_size))"
    by (simp add: read_buffer_def dispatch_def)
  from exact prefix neither four four_zero unknown buffer show ?thesis
    by simp
qed

text \<open>
  The three ways of the dispatch at \<open>"4.1"\<close>, \<open>"4.3"\<close> and \<open>"9.9"\<close>, and \<open>read_buffer\<close> on
  \<open>example_header\<close>.
\<close>

lemma example_header_comments:
  "skip_comments (strip (fst (readline example_header))) (snd (readline example_header))
     = Some (''$MeshFormat'', ''4.3 0 8'' @ nl @ ''$EndMeshFormat'' @ nl @ ''rest'')"
  by (simp add: example_header_def skip_comments.simps skip_to_end_comments.simps strip_def
      is_space_def readline_def)

lemma example_header_read:
  "read_header (''4.3 0 8'' @ nl @ ''$EndMeshFormat'' @ nl @ ''rest'')
     = Some (Inr (''4.3'', 8, True, ''rest''))"
proof -
  have tokens: "split_ws (''4.3 0 8'' @ nl) = [''4.3'', ''0'', ''8'']"
    by (simp add: split_ws_def is_space_def)
  have size: "py_int ''8'' = Some 8"
    by (simp add: py_int_def strip_def is_space_def is_digit_def nat_of_digits_def digit_val_def)
  have marker: "fast_forward ''$EndMeshFormat'' (''$EndMeshFormat'' @ nl @ ''rest'') = Some ''rest''"
    by (simp add: fast_forward.simps strip_def is_space_def readline_def)
  from tokens size marker show ?thesis
    by (simp add: read_header_def readline_def)
qed

theorem version_dispatch_witness:
  "select_codec readers ''4.1'' = Inr Gmsh41
   \<and> select_codec readers ''4.3'' = Inr Gmsh40
   \<and> select_codec readers ''9.9'' =
        Inl (ValueError (''Need mesh format in ['' @ [CHR 0x27] @ ''2'' @ [CHR 0x27] @ '', ''
               @ [CHR 0x27] @ ''4'' @ [CHR 0x27] @ '', '' @ [CHR 0x27] @ ''4.0'' @ [CHR 0x27]
               @ '', '' @ [CHR 0x27] @ ''4.1'' @ [CHR 0x27] @ ''] (got 9.9)''))
   \<and> read_buffer example_header = Some (Inr (Gmsh40, ''rest'', True, 8))"
proof -
  have exact: "map_of readers ''4.1'' = Some Gmsh41"
    by (simp add: readers_def)
  have prefix: "map_of readers ''4.3'' = None \<and> map_of readers (before_dot ''4.3'') = Some Gmsh40"
    by (simp add: readers_def before_dot_def)
  have neither: "map_of readers ''9.9'' = None \<and> map_of readers (before_dot ''9.9'') = None"
    by (simp add: readers_def before_dot_def)
  note d1 = version_dispatch [where v = "''4.1''" and r = Gmsh41]
  note d2 = version_dispatch [where v = "''4.3''" and r = Gmsh40 and f = example_header
      and ?f1.0 = "''4.3 0 8'' @ nl @ ''$EndMeshFormat'' @ nl @ ''rest''"
      and data_size = 8 and is_ascii = True and ?f2.0 = "''rest''"]
  note d3 = version_dispatch [where v = "''9.9''"]
  have c1: "select_codec readers ''4.1'' = Inr Gmsh41"
    using d1 exact by blast
  have c2: "select_codec readers ''4.3'' = Inr Gmsh40"
    using d2 prefix by blast
  have c4: "read_buffer example_header =
      Some (case select_codec readers ''4.3'' of
              Inl e \<Rightarrow> Inl (Py e)
            | Inr reader \<Rightarrow> Inr (reader, ''rest'', True, 8))"
    using d2 example_header_comments example_header_read by blast
  from c1 c2 c4 d3 show ?thesis
    by simp
qed

section \<open>Physical names\<close>









section \<open>Data sections: the component count\<close>

lemma str_int_small:
  "str_int 0 = ''0''" "str_int 1 = ''1''" "str_int 3 = ''3''"
  by (simp_all add: str_int_def str_nat.simps digit_def)

text \<open>
  C1, as the code has it. For a field whose component count is not 1, 3 or 9 the writer
  raises \<open>WriteError\<close> after it has written the opening marker, the string tag, the real
  tag, the number of integer tags and the time step, and before it writes the component
  count, the item count or any data; for 1, 3 or 9 components the call raises nothing.
\<close>

theorem write_data_component_count:
  "(num_components_of data \<notin> {1, 3, 9} \<longrightarrow>
      write_data cdc fh tag name data binary =
        (fh @ ''$'' @ tag @ nl @ ''1'' @ nl @ [CHR 0x22] @ name @ [CHR 0x22] @ nl @ ''1'' @ nl
            @ ''0.0'' @ nl @ ''3'' @ nl @ ''0'' @ nl,
         Some (WriteError ''Gmsh only permits 1, 3, or 9 components per data field.'')))
   \<and> (num_components_of data \<in> {1, 3, 9} \<longrightarrow>
        snd (write_data cdc fh tag name data binary) = None)"
  by (simp add: write_data_def Let_def str_int_small)

theorem write_data_component_count_witness:
  "num_components_of (Arr2 2 [[1, 2 :: int]]) \<notin> {1, 3, 9}
   \<and> write_data int_codec ''x'' ''NodeData'' ''f'' (Arr2 2 [[1, 2]]) False =
        (''x$NodeData'' @ nl @ ''1'' @ nl @ [CHR 0x22] @ ''f'' @ [CHR 0x22] @ nl @ ''1'' @ nl
            @ ''0.0'' @ nl @ ''3'' @ nl @ ''0'' @ nl,
         Some (WriteError ''Gmsh only permits 1, 3, or 9 components per data field.''))
   \<and> num_components_of (Arr2 3 [[1, 2, 3 :: int]]) \<in> {1, 3, 9}
   \<and> snd (write_data int_codec ''x'' ''NodeData'' ''f'' (Arr2 3 [[1, 2, 3]]) True) = None"
proof -
  have two: "num_components_of (Arr2 2 [[1, 2 :: int]]) \<notin> {1, 3, 9}"
    by (simp add: num_components_of_def)
  have three: "num_components_of (Arr2 3 [[1, 2, 3 :: int]]) \<in> {1, 3, 9}"
    by (simp add: num_components_of_def)
  from two three
    write_data_component_count [of "Arr2 2 [[1, 2]]" int_codec "''x''" "''NodeData''" "''f''" False]
    write_data_component_count [of "Arr2 3 [[1, 2, 3]]" int_codec "''x''" "''NodeData''" "''f''" True]
  show ?thesis
    by simp
qed

text \<open>
  A field with two components, written to an empty file: the call ends with \<open>WriteError\<close>
  and the file holds seven lines.
\<close>

theorem write_data_bytes_before_error_counterexample:
  "write_data int_codec [] ''NodeData'' ''f'' (Arr2 2 [[1, 2]]) False =
     (''$NodeData'' @ nl @ ''1'' @ nl @ [CHR 0x22] @ ''f'' @ [CHR 0x22] @ nl @ ''1'' @ nl
        @ ''0.0'' @ nl @ ''3'' @ nl @ ''0'' @ nl,
      Some (WriteError ''Gmsh only permits 1, 3, or 9 components per data field.''))
   \<and> fst (write_data int_codec [] ''NodeData'' ''f'' (Arr2 2 [[1, 2]]) False) \<noteq> []"
  by (simp add: write_data_def Let_def str_int_small num_components_of_def)

section \<open>Printing and parsing text\<close>
















lemma str_int_nat: "str_int (int n) = str_nat n"
  by (simp add: str_int_def)


section \<open>Reading back what the data writer wrote: the tags and the closing marker\<close>










section \<open>Reading back what the data writer wrote: binary records\<close>











section \<open>Reading back what the data writer wrote: text\<close>











section \<open>The codec for integers\<close>










section \<open>What the data writer writes\<close>


lemma ascii_lines_table:
  "concat (map (\<lambda>(k, x). ascii_line cdc k x) (enumerate 0 rows))
     = ascii_table cdc (map (\<lambda>k. int k + 1) [0..<length rows]) rows"
proof -
  have "zip (map (\<lambda>k. int k + 1) [0..<length rows]) rows
      = map (\<lambda>(k, x). (int k + 1, x)) (enumerate 0 rows)"
    by (simp add: enumerate_eq_zip zip_map1)
  then show ?thesis
    by (simp add: ascii_table_def ascii_line_def comp_def case_prod_beta cong: map_cong)
qed


lemma write_body_rows:
  "write_body cdc binary m (Arr2 m rows) = written_block cdc binary rows"
  using ascii_lines_table [of cdc rows]
  by (simp add: write_body_def written_block_def)



lemma column0_singletons:
  "list_all (\<lambda>r. length r = 1) rows \<Longrightarrow> map (\<lambda>x. [x]) (map hd rows) = rows"
proof (induction rows)
  case Nil
  then show ?case by simp
next
  case (Cons r rows)
  then obtain x where "r = [x]" by (cases r) auto
  with Cons show ?case by simp
qed


lemma write_data_rows:
  assumes "m \<in> {3, 9}"
  shows "write_data cdc fh tag name (Arr2 m rows) binary =
     (fh @ ''$'' @ tag @ nl @ written_section cdc binary tag name m rows, None)"
  using assms
  by (auto simp: write_data_def Let_def num_components_of_def str_int_small str_int_nat
      write_body_rows written_section_def section_head_def)

section \<open>Reading back what the data writer wrote: the whole section\<close>








section \<open>One component: the shape collapses\<close>








section \<open>The index check of binary data sections\<close>








section \<open>XDMF reader: where the mesh grid is found\<close>

lemma uniform_eq: "(\<lambda>g. map_of (el_attrib g) ''GridType'' = Some ''Uniform'') = uniform"
  by (rule ext) (simp add: uniform_def)

lemma last_with_grid_type_result:
  "last_with_grid_type ty gs found = Inr r \<Longrightarrow>
   list_all has_grid_type gs \<and>
   r = (if filter (\<lambda>g. map_of (el_attrib g) ''GridType'' = Some ty) gs = [] then found
        else Some (last (filter (\<lambda>g. map_of (el_attrib g) ''GridType'' = Some ty) gs)))"
proof (induction gs arbitrary: found)
  case Nil
  then show ?case by simp
next
  case (Cons g gs)
  then show ?case
    by (cases "map_of (el_attrib g) ''GridType''")
       (auto simp: attr_def has_grid_type_def split: if_splits)
qed

lemma last_with_grid_type_total:
  "list_all has_grid_type gs \<Longrightarrow> \<exists>r. last_with_grid_type ty gs found = Inr r"
proof (induction gs arbitrary: found)
  case Nil
  then show ?case by simp
next
  case (Cons g gs)
  then show ?case
    by (cases "map_of (el_attrib g) ''GridType''") (auto simp: attr_def has_grid_type_def)
qed

lemma last_uniform:
  assumes "list_all has_grid_type gs"
  shows "last_with_grid_type ''Uniform'' gs None =
         Inr (if filter uniform gs = [] then None else Some (last (filter uniform gs)))"
proof -
  from last_with_grid_type_total [OF assms] obtain r where
    r: "last_with_grid_type ''Uniform'' gs None = Inr r" by blast
  from last_with_grid_type_result [OF r] have
    "r = (if filter uniform gs = [] then None else Some (last (filter uniform gs)))"
    by (simp add: uniform_eq)
  with r show ?thesis by simp
qed

lemma first_uniform_filter:
  "first_uniform c = (if filter uniform c = [] then None else Some (hd (filter uniform c)))"
proof (induction c)
  case Nil
  then show ?case by simp
next
  case (Cons g c)
  then show ?case
    by (cases "map_of (el_attrib g) ''GridType''") (auto simp: attr_def uniform_def uniform_eq)
qed

lemma find_mesh_grid_order:
  assumes "list_all has_grid_type grids"
  shows "find_mesh_grid grids collection =
          (if filter uniform grids \<noteq> [] then check_grid_tag (last (filter uniform grids))
           else if filter uniform collection \<noteq> [] then check_grid_tag (hd (filter uniform collection))
           else Inl (ReadError ''Couldn't find the mesh grid''))"
  by (simp add: find_mesh_grid_def last_uniform [OF assms] first_uniform_filter check_grid_tag_def Let_def)

lemma find_collection_grids:
  assumes "find_collection tree_root = Inr (domain, collection_grid)"
  shows "list_all has_grid_type (el_children domain)"
proof -
  from assms obtain r where "last_with_grid_type ''Collection'' (el_children domain) None = Inr r"
    by (auto simp: find_collection_def Let_def split: if_splits sum.splits option.splits)
  from last_with_grid_type_result [OF this] show ?thesis by simp
qed

text \<open>
  C5. When every child of the domain has a \<open>GridType\<close> (as it has once the collection has
  been found), the mesh grid is the last child of the domain whose \<open>GridType\<close> is \<open>Uniform\<close>
  if there is one, whatever the collection holds; only when there is none it is the first
  grid of the collection whose \<open>GridType\<close> is \<open>Uniform\<close>; and when there is none either the
  reader fails with \<open>ReadError\<close>. The grid found must have the tag \<open>Grid\<close>. Nothing is
  reported when both places hold a uniform grid: the reader has no output but its result.
\<close>

theorem mesh_grid_search_order:
  "(list_all has_grid_type grids \<longrightarrow>
      find_mesh_grid grids collection =
        (if filter uniform grids \<noteq> [] then check_grid_tag (last (filter uniform grids))
         else if filter uniform collection \<noteq> [] then check_grid_tag (hd (filter uniform collection))
         else Inl (ReadError ''Couldn't find the mesh grid'')))
   \<and> (find_collection tree_root = Inr (domain, collection_grid) \<longrightarrow>
        (filter uniform (el_children domain) \<noteq> []
           \<and> el_tag (last (filter uniform (el_children domain))) = ''Grid'' \<longrightarrow>
           (\<exists>rd :: ('arr, 'h) reader. TimeSeriesReader_init filename tree_root = Inr rd
              \<and> rd_mesh_grid rd = last (filter uniform (el_children domain))
              \<and> rd_collection rd = el_children collection_grid \<and> rd_cells rd = None))
        \<and> (filter uniform (el_children domain) = []
             \<and> filter uniform (el_children collection_grid) \<noteq> []
             \<and> el_tag (hd (filter uniform (el_children collection_grid))) = ''Grid'' \<longrightarrow>
           (\<exists>rd :: ('arr, 'h) reader. TimeSeriesReader_init filename tree_root = Inr rd
              \<and> rd_mesh_grid rd = hd (filter uniform (el_children collection_grid))
              \<and> rd_collection rd = el_children collection_grid \<and> rd_cells rd = None))
        \<and> (filter uniform (el_children domain) = []
             \<and> filter uniform (el_children collection_grid) = [] \<longrightarrow>
           (TimeSeriesReader_init filename tree_root :: error + ('arr, 'h) reader)
             = Inl (ReadError ''Couldn't find the mesh grid'')))"
proof -
  have search: "list_all has_grid_type grids \<longrightarrow>
      find_mesh_grid grids collection =
        (if filter uniform grids \<noteq> [] then check_grid_tag (last (filter uniform grids))
         else if filter uniform collection \<noteq> [] then check_grid_tag (hd (filter uniform collection))
         else Inl (ReadError ''Couldn't find the mesh grid''))"
    using find_mesh_grid_order by blast
  have init: "find_collection tree_root = Inr (domain, collection_grid) \<longrightarrow>
        (filter uniform (el_children domain) \<noteq> []
           \<and> el_tag (last (filter uniform (el_children domain))) = ''Grid'' \<longrightarrow>
           (\<exists>rd :: ('arr, 'h) reader. TimeSeriesReader_init filename tree_root = Inr rd
              \<and> rd_mesh_grid rd = last (filter uniform (el_children domain))
              \<and> rd_collection rd = el_children collection_grid \<and> rd_cells rd = None))
        \<and> (filter uniform (el_children domain) = []
             \<and> filter uniform (el_children collection_grid) \<noteq> []
             \<and> el_tag (hd (filter uniform (el_children collection_grid))) = ''Grid'' \<longrightarrow>
           (\<exists>rd :: ('arr, 'h) reader. TimeSeriesReader_init filename tree_root = Inr rd
              \<and> rd_mesh_grid rd = hd (filter uniform (el_children collection_grid))
              \<and> rd_collection rd = el_children collection_grid \<and> rd_cells rd = None))
        \<and> (filter uniform (el_children domain) = []
             \<and> filter uniform (el_children collection_grid) = [] \<longrightarrow>
           (TimeSeriesReader_init filename tree_root :: error + ('arr, 'h) reader)
             = Inl (ReadError ''Couldn't find the mesh grid''))"
  proof
    assume fc: "find_collection tree_root = Inr (domain, collection_grid)"
    note ord = find_mesh_grid_order [OF find_collection_grids [OF fc], of "el_children collection_grid"]
    show "(filter uniform (el_children domain) \<noteq> []
           \<and> el_tag (last (filter uniform (el_children domain))) = ''Grid'' \<longrightarrow>
           (\<exists>rd :: ('arr, 'h) reader. TimeSeriesReader_init filename tree_root = Inr rd
              \<and> rd_mesh_grid rd = last (filter uniform (el_children domain))
              \<and> rd_collection rd = el_children collection_grid \<and> rd_cells rd = None))
        \<and> (filter uniform (el_children domain) = []
             \<and> filter uniform (el_children collection_grid) \<noteq> []
             \<and> el_tag (hd (filter uniform (el_children collection_grid))) = ''Grid'' \<longrightarrow>
           (\<exists>rd :: ('arr, 'h) reader. TimeSeriesReader_init filename tree_root = Inr rd
              \<and> rd_mesh_grid rd = hd (filter uniform (el_children collection_grid))
              \<and> rd_collection rd = el_children collection_grid \<and> rd_cells rd = None))
        \<and> (filter uniform (el_children domain) = []
             \<and> filter uniform (el_children collection_grid) = [] \<longrightarrow>
           (TimeSeriesReader_init filename tree_root :: error + ('arr, 'h) reader)
             = Inl (ReadError ''Couldn't find the mesh grid''))"
      by (simp add: TimeSeriesReader_init_def fc ord check_grid_tag_def)
  qed
  from search init show ?thesis by blast
qed

lemma doc_both_collection:
  "find_collection doc_both =
     Inr (Element ''Domain'' [] None [temporal [frame_grid, inner_grid], outer_grid],
          temporal [frame_grid, inner_grid])"
  by (simp add: find_collection_def doc_both_def document_def attr_def before_dot_def temporal_def
      outer_grid_def)

lemma doc_nested_collection:
  "find_collection doc_nested =
     Inr (Element ''Domain'' [] None [temporal [frame_grid, inner_grid]],
          temporal [frame_grid, inner_grid])"
  by (simp add: find_collection_def doc_nested_def document_def attr_def before_dot_def temporal_def)

lemma doc_neither_collection:
  "find_collection doc_neither =
     Inr (Element ''Domain'' [] None [temporal [frame_grid]], temporal [frame_grid])"
  by (simp add: find_collection_def doc_neither_def document_def attr_def before_dot_def temporal_def)

lemma example_grids_uniform:
  "uniform outer_grid" "uniform inner_grid" "\<not> uniform (temporal fs)" "\<not> uniform frame_grid"
  "el_tag outer_grid = ''Grid''" "el_tag inner_grid = ''Grid''"
  "has_grid_type outer_grid" "has_grid_type (temporal fs)"
  by (simp_all add: uniform_def has_grid_type_def outer_grid_def inner_grid_def temporal_def frame_grid_def)

text \<open>The three documents: both places, the collection only, neither.\<close>

theorem mesh_grid_search_order_witness:
  "list_all has_grid_type [temporal [frame_grid, inner_grid], outer_grid]
   \<and> find_mesh_grid [temporal [frame_grid, inner_grid], outer_grid] [frame_grid, inner_grid] = Inr outer_grid
   \<and> (\<exists>rd :: (unit, unit) reader. TimeSeriesReader_init ''a.xdmf'' doc_both = Inr rd
         \<and> rd_mesh_grid rd = outer_grid \<and> rd_collection rd = [frame_grid, inner_grid] \<and> rd_cells rd = None)
   \<and> (\<exists>rd :: (unit, unit) reader. TimeSeriesReader_init ''a.xdmf'' doc_nested = Inr rd
         \<and> rd_mesh_grid rd = inner_grid \<and> rd_collection rd = [frame_grid, inner_grid] \<and> rd_cells rd = None)
   \<and> (TimeSeriesReader_init ''a.xdmf'' doc_neither :: error + (unit, unit) reader)
         = Inl (ReadError ''Couldn't find the mesh grid'')"
proof -
  have all: "list_all has_grid_type [temporal [frame_grid, inner_grid], outer_grid]"
    by (simp add: example_grids_uniform)
  have sib: "filter uniform [temporal [frame_grid, inner_grid], outer_grid] = [outer_grid]"
    by (simp add: example_grids_uniform)
  have nested: "filter uniform [frame_grid, inner_grid] = [inner_grid]"
    by (simp add: example_grids_uniform)
  have none1: "filter uniform [temporal [frame_grid, inner_grid]] = []"
    by (simp add: example_grids_uniform)
  have none2: "filter uniform [temporal [frame_grid]] = []" "filter uniform [frame_grid] = []"
    by (simp_all add: example_grids_uniform)
  have kids: "el_children (temporal fs) = fs" for fs
    by (simp add: temporal_def)
  note both = mesh_grid_search_order [where grids = "[temporal [frame_grid, inner_grid], outer_grid]"
      and collection = "[frame_grid, inner_grid]" and tree_root = doc_both and filename = "''a.xdmf''"
      and domain = "Element ''Domain'' [] None [temporal [frame_grid, inner_grid], outer_grid]"
      and collection_grid = "temporal [frame_grid, inner_grid]", where ?'arr = unit and ?'h = unit]
  note inner = mesh_grid_search_order [where tree_root = doc_nested and filename = "''a.xdmf''"
      and domain = "Element ''Domain'' [] None [temporal [frame_grid, inner_grid]]"
      and collection_grid = "temporal [frame_grid, inner_grid]", where ?'arr = unit and ?'h = unit]
  note neither = mesh_grid_search_order [where tree_root = doc_neither and filename = "''a.xdmf''"
      and domain = "Element ''Domain'' [] None [temporal [frame_grid]]"
      and collection_grid = "temporal [frame_grid]", where ?'arr = unit and ?'h = unit]
  have c1: "find_mesh_grid [temporal [frame_grid, inner_grid], outer_grid] [frame_grid, inner_grid] = Inr outer_grid"
    using both all by (simp add: sib check_grid_tag_def example_grids_uniform)
  have c2: "\<exists>rd :: (unit, unit) reader. TimeSeriesReader_init ''a.xdmf'' doc_both = Inr rd
         \<and> rd_mesh_grid rd = outer_grid \<and> rd_collection rd = [frame_grid, inner_grid] \<and> rd_cells rd = None"
    using both doc_both_collection by (simp add: sib kids example_grids_uniform)
  have c3: "\<exists>rd :: (unit, unit) reader. TimeSeriesReader_init ''a.xdmf'' doc_nested = Inr rd
         \<and> rd_mesh_grid rd = inner_grid \<and> rd_collection rd = [frame_grid, inner_grid] \<and> rd_cells rd = None"
    using inner doc_nested_collection by (simp add: none1 nested kids example_grids_uniform)
  have c4: "(TimeSeriesReader_init ''a.xdmf'' doc_neither :: error + (unit, unit) reader)
         = Inl (ReadError ''Couldn't find the mesh grid'')"
    using neither doc_neither_collection by (simp add: kids example_grids_uniform)
  from all c1 c2 c3 c4 show ?thesis by blast
qed

section \<open>XDMF reader: frames\<close>

lemma read_hdf_cells: "read_hdf env self info = (res, self1) \<Longrightarrow> rd_cells self1 = rd_cells self"
  by (auto simp: read_hdf_def Let_def split: list.splits option.splits sum.splits if_splits)

lemma read_data_item_cells:
  "read_data_item env self data_item = (res, self1) \<Longrightarrow> rd_cells self1 = rd_cells self"
  by (auto simp: read_data_item_def split: sum.splits option.splits if_splits dest: read_hdf_cells)

lemma read_frame_children_cells:
  "read_frame_children env cs t pd cr self = (res, self1) \<Longrightarrow> rd_cells self1 = rd_cells self"
proof (induction cs arbitrary: t pd cr self)
  case Nil
  then show ?case by auto
next
  case (Cons c cs)
  show ?case
  proof (cases "el_tag c = ''Attribute'' \<and> el_tag c \<noteq> ''Time''")
    case False
    with Cons show ?thesis
      by (auto split: sum.splits option.splits if_splits)
  next
    case True
    obtain r s where item: "read_data_item env self (el_children c ! 0) = (r, s)"
      by (cases "read_data_item env self (el_children c ! 0)")
    then have s: "rd_cells s = rd_cells self" by (rule read_data_item_cells)
    from Cons.prems True item s Cons.IH show ?thesis
      by (auto split: sum.splits option.splits if_splits)
  qed
qed


lemma read_frame_children_time:
  "read_frame_children env cs t0 pd cr self = (Inr (t, pd', cr'), self1) \<Longrightarrow>
   t = (if filter (\<lambda>c. el_tag c = ''Time'') cs = [] then t0
        else time_of env (last (filter (\<lambda>c. el_tag c = ''Time'') cs)))
   \<and> (filter (\<lambda>c. el_tag c = ''Time'') cs \<noteq> [] \<longrightarrow> t \<noteq> None)"
proof (induction cs arbitrary: t0 pd cr self)
  case Nil
  then show ?case by auto
next
  case (Cons c cs)
  show ?case
  proof (cases "el_tag c = ''Time''")
    case True
    with Cons.prems obtain v t1 where v: "attr c ''Value'' = Inr v" "py_float env v = Some t1"
      and rest: "read_frame_children env cs (Some t1) pd cr self = (Inr (t, pd', cr'), self1)"
      by (auto split: sum.splits option.splits)
    from v have "time_of env c = Some t1"
      by (auto simp: time_of_def attr_def split: option.splits)
    with Cons.IH [OF rest] True show ?thesis by auto
  next
    case False
    note not_time = this
    show ?thesis
    proof (cases "el_tag c = ''Attribute''")
      case False
      with not_time Cons.prems have "read_frame_children env cs t0 pd cr self = (Inr (t, pd', cr'), self1)"
        by simp
      from Cons.IH [OF this] not_time show ?thesis by auto
    next
      case True
      with not_time Cons.prems obtain pd1 cr1 s where
        "read_frame_children env cs t0 pd1 cr1 s = (Inr (t, pd', cr'), self1)"
        by (auto split: sum.splits option.splits if_splits prod.splits)
      from Cons.IH [OF this] not_time show ?thesis by auto
    qed
  qed
qed

lemma read_frame_children_plain:
  assumes "\<forall>c \<in> set cs. el_tag c \<noteq> ''Attribute'' \<and> (el_tag c = ''Time'' \<longrightarrow> time_of env c \<noteq> None)"
  shows "read_frame_children env cs t0 pd cr self =
     (Inr (if filter (\<lambda>c. el_tag c = ''Time'') cs = [] then t0
           else time_of env (last (filter (\<lambda>c. el_tag c = ''Time'') cs)), pd, cr), self)"
  using assms
proof (induction cs arbitrary: t0)
  case Nil
  then show ?case by simp
next
  case (Cons c cs)
  show ?case
  proof (cases "el_tag c = ''Time''")
    case True
    with Cons.prems obtain v t1 where v: "map_of (el_attrib c) ''Value'' = Some v" "py_float env v = Some t1"
      by (auto simp: time_of_def split: option.splits)
    then have t: "time_of env c = Some t1" by (simp add: time_of_def)
    from Cons.prems have "\<forall>c \<in> set cs. el_tag c \<noteq> ''Attribute'' \<and> (el_tag c = ''Time'' \<longrightarrow> time_of env c \<noteq> None)"
      by simp
    from Cons.IH [OF this, of "Some t1"] True v t show ?thesis
      by (simp add: attr_def)
  next
    case False
    from Cons.prems have "\<forall>c \<in> set cs. el_tag c \<noteq> ''Attribute'' \<and> (el_tag c = ''Time'' \<longrightarrow> time_of env c \<noteq> None)"
      and "el_tag c \<noteq> ''Attribute''"
      by simp_all
    with Cons.IH [of t0] False show ?thesis by simp
  qed
qed

lemma read_data_needs_cells:
  assumes "rd_cells self = None"
  shows "\<exists>e. fst (TimeSeriesReader_read_data env self k) = Inl e"
proof (cases "list_index (rd_collection self) k")
  case (Inl e)
  then show ?thesis by (simp add: TimeSeriesReader_read_data_def)
next
  case (Inr frame)
  obtain res self1 where loop: "read_frame_children env (el_children frame) None [] [] self = (res, self1)"
    by (cases "read_frame_children env (el_children frame) None [] [] self")
  from read_frame_children_cells [OF loop] assms have "rd_cells self1 = None" by simp
  with Inr loop show ?thesis
    by (cases res) (auto simp: TimeSeriesReader_read_data_def)
qed

lemma read_points_cells_sets_cells:
  "read_points_cells env self = (Inr (points, cells), self1) \<Longrightarrow> rd_cells self1 = Some cells"
  by (auto simp: read_points_cells_def split: prod.splits sum.splits)

lemma read_data_time:
  assumes "TimeSeriesReader_read_data env self k = (Inr (t, point_data, cell_data), self2)"
  shows "\<exists>frame. list_index (rd_collection self) k = Inr frame
           \<and> filter (\<lambda>c. el_tag c = ''Time'') (el_children frame) \<noteq> []
           \<and> time_of env (last (filter (\<lambda>c. el_tag c = ''Time'') (el_children frame))) = Some t"
proof -
  from assms obtain frame where frame: "list_index (rd_collection self) k = Inr frame"
    by (cases "list_index (rd_collection self) k") (auto simp: TimeSeriesReader_read_data_def)
  from assms frame obtain pd cr self1 where
    loop: "read_frame_children env (el_children frame) None [] [] self = (Inr (Some t, pd, cr), self1)"
    by (auto simp: TimeSeriesReader_read_data_def split: prod.splits sum.splits option.splits)
  from read_frame_children_time [OF loop] have
    "filter (\<lambda>c. el_tag c = ''Time'') (el_children frame) \<noteq> []
     \<and> time_of env (last (filter (\<lambda>c. el_tag c = ''Time'') (el_children frame))) = Some t"
    by (auto split: if_splits)
  with frame show ?thesis by blast
qed

lemma read_data_no_time:
  assumes "list_index (rd_collection self) k = Inr frame"
    and "filter (\<lambda>c. el_tag c = ''Time'') (el_children frame) = []"
  shows "\<exists>e. fst (TimeSeriesReader_read_data env self k) = Inl e"
proof (cases "fst (TimeSeriesReader_read_data env self k)")
  case (Inl e)
  then show ?thesis by blast
next
  case (Inr r)
  then obtain t pd cd self2 where "TimeSeriesReader_read_data env self k = (Inr (t, pd, cd), self2)"
    by (cases "TimeSeriesReader_read_data env self k"; cases r) auto
  from read_data_time [OF this] assms show ?thesis by auto
qed

lemma read_data_plain_frame:
  assumes cells: "rd_cells self = Some cells"
    and frame: "list_index (rd_collection self) k = Inr frame"
    and kids: "\<forall>c \<in> set (el_children frame). el_tag c \<noteq> ''Attribute'' \<and> (el_tag c = ''Time'' \<longrightarrow> time_of env c \<noteq> None)"
    and some: "filter (\<lambda>c. el_tag c = ''Time'') (el_children frame) \<noteq> []"
    and cd: "cell_data_from_raw env cells [] = Inr cell_data"
  shows "\<exists>t. time_of env (last (filter (\<lambda>c. el_tag c = ''Time'') (el_children frame))) = Some t
           \<and> TimeSeriesReader_read_data env self k = (Inr (t, [], cell_data), self)"
proof -
  from some have "last (filter (\<lambda>c. el_tag c = ''Time'') (el_children frame))
      \<in> set (filter (\<lambda>c. el_tag c = ''Time'') (el_children frame))"
    by (rule last_in_set)
  with kids obtain t where t: "time_of env (last (filter (\<lambda>c. el_tag c = ''Time'') (el_children frame))) = Some t"
    by auto
  from read_frame_children_plain [OF kids, of None "[]" "[]" self] some t
  have "read_frame_children env (el_children frame) None [] [] self = (Inr (Some t, [], []), self)"
    by simp
  with cells frame cd t show ?thesis
    by (simp add: TimeSeriesReader_read_data_def)
qed

text \<open>
  C9. As long as \<open>read_points_cells\<close> has not set the cells, \<open>read_data(k)\<close> ends with an
  exception for every \<open>k\<close>. \<open>read_points_cells\<close>, when it returns, has set them. From then on
  a result of \<open>read_data(k)\<close> carries the time of the last \<open>Time\<close> element of frame \<open>k\<close>; a frame
  without a \<open>Time\<close> element ends with an exception; and a frame of \<open>Time\<close> elements with
  numbers and of elements that are passed over is read, when \<open>cell_data_from_raw\<close> returns.
\<close>

theorem read_data_after_points_cells:
  "(rd_cells self = None \<longrightarrow> (\<exists>e. fst (TimeSeriesReader_read_data env self k) = Inl e))
   \<and> (read_points_cells env self = (Inr (points, cells), self1) \<longrightarrow> rd_cells self1 = Some cells)
   \<and> (TimeSeriesReader_read_data env self k = (Inr (t, point_data, cell_data), self2) \<longrightarrow>
        (\<exists>frame. list_index (rd_collection self) k = Inr frame
           \<and> filter (\<lambda>c. el_tag c = ''Time'') (el_children frame) \<noteq> []
           \<and> time_of env (last (filter (\<lambda>c. el_tag c = ''Time'') (el_children frame))) = Some t))
   \<and> (list_index (rd_collection self) k = Inr frame
        \<and> filter (\<lambda>c. el_tag c = ''Time'') (el_children frame) = []
        \<longrightarrow> (\<exists>e. fst (TimeSeriesReader_read_data env self k) = Inl e))
   \<and> (rd_cells self = Some cells \<and> list_index (rd_collection self) k = Inr frame
        \<and> (\<forall>c \<in> set (el_children frame).
              el_tag c \<noteq> ''Attribute'' \<and> (el_tag c = ''Time'' \<longrightarrow> time_of env c \<noteq> None))
        \<and> filter (\<lambda>c. el_tag c = ''Time'') (el_children frame) \<noteq> []
        \<and> cell_data_from_raw env cells [] = Inr cell_data
        \<longrightarrow> (\<exists>t. time_of env (last (filter (\<lambda>c. el_tag c = ''Time'') (el_children frame))) = Some t
               \<and> TimeSeriesReader_read_data env self k = (Inr (t, [], cell_data), self)))"
  using read_data_needs_cells [of self env k] read_points_cells_sets_cells [of env self points cells self1]
    read_data_time [of env self k t point_data cell_data self2]
    read_data_no_time [of self k frame env]
    read_data_plain_frame [of self cells k frame env cell_data]
  by blast

lemma example_frames:
  "list_index (rd_collection example_reader) 0 = Inr frame_grid"
  "list_index (rd_collection example_reader) 1 = Inr inner_grid"
  "list_index (rd_collection (example_reader\<lparr>rd_cells := Some []\<rparr>)) 0 = Inr frame_grid"
  "list_index (rd_collection (example_reader\<lparr>rd_cells := Some []\<rparr>)) 1 = Inr inner_grid"
  by (simp_all add: list_index_def example_reader_def)

lemma example_frame_children:
  "el_children frame_grid = [Element ''Time'' [(''Value'', ''0.5'')] None []]"
  "el_children inner_grid = []" "el_children outer_grid = []"
  by (simp_all add: frame_grid_def inner_grid_def outer_grid_def)

lemma example_points_cells:
  "read_points_cells example_env example_reader
     = (Inr (None, []), example_reader\<lparr>rd_cells := Some []\<rparr>)"
  by (simp add: read_points_cells_def example_reader_def example_frame_children)

text \<open>
  The reader of the document with both grids, in \<open>example_env\<close>: frame 0 has the time
  \<open>0.5\<close>, frame 1 has no \<open>Time\<close> element.
\<close>

theorem read_data_after_points_cells_witness:
  "rd_cells example_reader = None
   \<and> TimeSeriesReader_read_data example_env example_reader 0 = (Inl (ReadError []), example_reader)
   \<and> read_points_cells example_env example_reader
       = (Inr (None, []), example_reader\<lparr>rd_cells := Some []\<rparr>)
   \<and> rd_cells (example_reader\<lparr>rd_cells := Some []\<rparr>) = Some []
   \<and> TimeSeriesReader_read_data example_env (example_reader\<lparr>rd_cells := Some []\<rparr>) 0
       = (Inr (''0.5'', [], []), example_reader\<lparr>rd_cells := Some []\<rparr>)
   \<and> time_of example_env (Element ''Time'' [(''Value'', ''0.5'')] None []) = Some ''0.5''
   \<and> (\<exists>e. fst (TimeSeriesReader_read_data example_env (example_reader\<lparr>rd_cells := Some []\<rparr>) 1) = Inl e)"
proof -
  let ?after = "example_reader\<lparr>rd_cells := Some []\<rparr>"
  have none: "rd_cells example_reader = None" by (simp add: example_reader_def)
  have t: "time_of example_env (Element ''Time'' [(''Value'', ''0.5'')] None []) = Some ''0.5''"
    by (simp add: time_of_def example_env_def)
  note before = read_data_after_points_cells [where self = example_reader and env = example_env and k = 0
      and points = None and cells = "[]" and ?self1.0 = ?after]
  note after0 = read_data_after_points_cells [where self = ?after and env = example_env and k = 0
      and cells = "[]" and frame = frame_grid and cell_data = "[]"
      and t = "''0.5''" and point_data = "[]" and ?self2.0 = ?after]
  note after1 = read_data_after_points_cells [where self = ?after and env = example_env and k = 1
      and frame = inner_grid]
  from before none have c1: "\<exists>e. fst (TimeSeriesReader_read_data example_env example_reader 0) = Inl e"
    by blast
  have c1': "TimeSeriesReader_read_data example_env example_reader 0 = (Inl (ReadError []), example_reader)"
    by (simp add: TimeSeriesReader_read_data_def example_frames example_frame_children attr_def
        example_env_def none)
  from before example_points_cells have c2: "rd_cells ?after = Some []"
    by blast
  have kids: "\<forall>c \<in> set (el_children frame_grid).
      el_tag c \<noteq> ''Attribute'' \<and> (el_tag c = ''Time'' \<longrightarrow> time_of example_env c \<noteq> None)"
    by (simp add: example_frame_children t)
  have times: "filter (\<lambda>c. el_tag c = ''Time'') (el_children frame_grid)
      = [Element ''Time'' [(''Value'', ''0.5'')] None []]"
    by (simp add: example_frame_children)
  have cd: "cell_data_from_raw example_env [] [] = Inr []" by (simp add: example_env_def)
  from after0 c2 example_frames(3) kids times cd t
  have c3: "TimeSeriesReader_read_data example_env ?after 0 = (Inr (''0.5'', [], []), ?after)"
    by simp
  from after1 example_frames(4) example_frame_children(2)
  have c4: "\<exists>e. fst (TimeSeriesReader_read_data example_env ?after 1) = Inl e"
    by simp
  from none c1' example_points_cells c2 c3 t c4 show ?thesis by blast
qed

section \<open>XDMF writer: the end of a session\<close>

lemma splitext_out: "splitext_root ''out.xdmf'' = ''out''"
  by (simp add: splitext_root_def basename_def after_last_def upto_last_def)

text \<open>
  C7 fails on the code. The session that writes nothing, for each data format: with \<open>XML\<close>
  and with \<open>Binary\<close>, \<open>__enter__\<close> sets no store and \<open>__exit__\<close> raises \<open>AttributeError\<close>; with
  \<open>HDF\<close> the store that was opened is closed once.
\<close>

theorem writer_exit_without_store:
  "(empty_session ''out.xdmf'' True ''XML'' :: error + unit writer) = Inl (AttributeError ''h5_file'')
   \<and> (empty_session ''out.xdmf'' True ''Binary'' :: error + unit writer) = Inl (AttributeError ''h5_file'')
   \<and> (\<exists>w :: unit writer. empty_session ''out.xdmf'' True ''HDF'' = Inr w
          \<and> wr_h5_file w = Some ''out.h5'' \<and> wr_closed w = [''out.h5''])"
  by (simp add: empty_session_def TimeSeriesWriter_init_def TimeSeriesWriter_enter_def
      TimeSeriesWriter_exit_def splitext_out)

lemma dict_set_lookup:
  "map_of (dict_set k v kvs) k' = (if k' = k then Some v else map_of kvs k')"
  by (induction kvs) auto

lemma dict_set_keys: "map_of kvs k \<noteq> None \<Longrightarrow> map fst (dict_set k v kvs) = map fst kvs"
  by (induction kvs) auto

lemma cells_method_frame:
  "snd (cells_method env self cells) =
     (if 1 < length cells
      then (case prepend_line_arity cells (total_num_cell_items cells + total_num_cells cells) of
              Inl e \<Rightarrow> cells | Inr (cells1, d) \<Rightarrow> cells1)
      else cells)"
  by (auto simp: cells_method_def split: sum.splits prod.splits option.splits list.splits)

section \<open>XDMF writer: the dictionary of the caller\<close>

lemma write_points_cells_frame:
  "snd (write_points_cells env self points cells) =
     (case points_method env (self\<lparr>wr_mesh_name := Some ''mesh''\<rparr>) points of
        Inl e \<Rightarrow> cells
      | Inr (geometry, self1) \<Rightarrow> snd (cells_method env self1 cells))"
  by (auto simp: write_points_cells_def Let_def split: sum.splits prod.splits)

text \<open>
  C10. When the points have been written, the dictionary has more than one key and the
  array under \<open>line\<close> is two-dimensional, the dictionary of the caller holds, after the call
  and whether or not the call raises later, the array with a column of 2 put first under
  \<open>line\<close>, and is otherwise as before, in the same order. With at most one key, or without
  the key \<open>line\<close>, the dictionary is as before; so it is when writing the points raises.
\<close>

theorem write_points_cells_line_in_place:
  "(points_method env (self\<lparr>wr_mesh_name := Some ''mesh''\<rparr>) points = Inr (geometry, self1)
      \<and> 1 < length cells \<and> map_of cells ''line'' = Some (dt, Arr2 m rows) \<longrightarrow>
      snd (write_points_cells env self points cells)
        = dict_set ''line'' (dt, Arr2 (Suc m) (map ((#) 2) rows)) cells
      \<and> map_of (snd (write_points_cells env self points cells)) ''line''
          = Some (dt, Arr2 (Suc m) (map ((#) 2) rows))
      \<and> (\<forall>k. k \<noteq> ''line'' \<longrightarrow> map_of (snd (write_points_cells env self points cells)) k = map_of cells k)
      \<and> map fst (snd (write_points_cells env self points cells)) = map fst cells)
   \<and> (length cells \<le> 1 \<or> map_of cells ''line'' = None \<longrightarrow>
        snd (write_points_cells env self points cells) = cells)
   \<and> (points_method env (self\<lparr>wr_mesh_name := Some ''mesh''\<rparr>) points = Inl e \<longrightarrow>
        write_points_cells env self points cells = (Inl e, cells))"
proof -
  have replaced: "points_method env (self\<lparr>wr_mesh_name := Some ''mesh''\<rparr>) points = Inr (geometry, self1)
      \<and> 1 < length cells \<and> map_of cells ''line'' = Some (dt, Arr2 m rows) \<longrightarrow>
      snd (write_points_cells env self points cells)
        = dict_set ''line'' (dt, Arr2 (Suc m) (map ((#) 2) rows)) cells"
    by (simp add: write_points_cells_frame cells_method_frame prepend_line_arity_def)
  have untouched: "length cells \<le> 1 \<or> map_of cells ''line'' = None \<longrightarrow>
        snd (write_points_cells env self points cells) = cells"
    by (auto simp: write_points_cells_frame cells_method_frame prepend_line_arity_def
        split: sum.splits prod.splits)
  have early: "points_method env (self\<lparr>wr_mesh_name := Some ''mesh''\<rparr>) points = Inl e \<longrightarrow>
        write_points_cells env self points cells = (Inl e, cells)"
    by (simp add: write_points_cells_def)
  from replaced untouched early show ?thesis
    by (auto simp: dict_set_lookup dict_set_keys)
qed

lemma example_points_written:
  "\<exists>geometry self1. points_method example_writer_env (example_writer\<lparr>wr_mesh_name := Some ''mesh''\<rparr>)
      example_points = Inr (geometry, self1)"
  by (simp add: points_method_def example_points_def example_writer_env_def example_writer_def
      format_shape2_def numpy_to_xml_string_def)

lemma four_columns_refused:
  "points_method example_writer_env (example_writer\<lparr>wr_mesh_name := Some ''mesh''\<rparr>)
      (''float64'', Arr2 4 [[0, 0, 0, 0]]) = Inl (WriteError ''Need 3D points.'')"
  by (simp add: points_method_def)

text \<open>
  The mesh of one triangle and two lines, the two lines alone, and points with four
  columns.
\<close>

theorem write_points_cells_line_in_place_witness:
  "1 < length example_cells
   \<and> map_of example_cells ''line'' = Some (''int64'', Arr2 2 [[0, 1], [1, 2]])
   \<and> snd (write_points_cells example_writer_env example_writer example_points example_cells)
       = [(''triangle'', ''int64'', Arr2 3 [[0, 1, 2]]), (''line'', ''int64'', Arr2 3 [[2, 0, 1], [2, 1, 2]])]
   \<and> snd (write_points_cells example_writer_env example_writer example_points
            [(''line'', ''int64'', Arr2 2 [[0, 1], [1, 2]])])
       = [(''line'', ''int64'', Arr2 2 [[0, 1], [1, 2]])]
   \<and> write_points_cells example_writer_env example_writer (''float64'', Arr2 4 [[0, 0, 0, 0]]) example_cells
       = (Inl (WriteError ''Need 3D points.''), example_cells)"
proof -
  from example_points_written obtain geometry self1 where
    pts: "points_method example_writer_env (example_writer\<lparr>wr_mesh_name := Some ''mesh''\<rparr>)
      example_points = Inr (geometry, self1)"
    by blast
  have many: "1 < length example_cells" by (simp add: example_cells_def)
  have line: "map_of example_cells ''line'' = Some (''int64'', Arr2 2 [[0, 1], [1, 2]])"
    by (simp add: example_cells_def)
  note mixed = write_points_cells_line_in_place [where env = example_writer_env and self = example_writer
      and points = example_points and cells = example_cells and geometry = geometry and ?self1.0 = self1
      and dt = "''int64''" and m = 2 and rows = "[[0, 1], [1, 2]]"]
  note single = write_points_cells_line_in_place [where env = example_writer_env and self = example_writer
      and points = example_points and cells = "[(''line'', ''int64'', Arr2 2 [[0, 1], [1, 2]])]"]
  note refused = write_points_cells_line_in_place [where env = example_writer_env and self = example_writer
      and points = "(''float64'', Arr2 4 [[0, 0, 0, 0]])" and cells = example_cells
      and e = "WriteError ''Need 3D points.''"]
  from mixed pts many line
  have "snd (write_points_cells example_writer_env example_writer example_points example_cells)
      = dict_set ''line'' (''int64'', Arr2 (Suc 2) (map ((#) 2) [[0, 1], [1, 2]])) example_cells"
    by blast
  then have c1: "snd (write_points_cells example_writer_env example_writer example_points example_cells)
       = [(''triangle'', ''int64'', Arr2 3 [[0, 1, 2]]), (''line'', ''int64'', Arr2 3 [[2, 0, 1], [2, 1, 2]])]"
    by (simp add: example_cells_def)
  from single have c2: "snd (write_points_cells example_writer_env example_writer example_points
            [(''line'', ''int64'', Arr2 2 [[0, 1], [1, 2]])])
       = [(''line'', ''int64'', Arr2 2 [[0, 1], [1, 2]])]"
    by simp
  from refused four_columns_refused
  have c3: "write_points_cells example_writer_env example_writer (''float64'', Arr2 4 [[0, 0, 0, 0]]) example_cells
       = (Inl (WriteError ''Need 3D points.''), example_cells)"
    by blast
  from many line c1 c2 c3 show ?thesis by blast
qed

section \<open>XDMF writer: the dimension of a mixed topology\<close>

lemma two_dimensional:
  "length (shape c) = 2 \<Longrightarrow> wf_array c \<Longrightarrow> \<exists>m rows. c = Arr2 m rows \<and> list_all (\<lambda>r. length r = m) rows"
  by (cases c) auto

lemma length_concat_cons:
  "list_all (\<lambda>r. length r = m) rows \<Longrightarrow> length (concat (map ((#) i) rows)) = length rows * Suc m"
  by (induction rows) auto

lemma mixed_stream_length:
  "mixed_wf cs \<Longrightarrow> mixed_stream env cs = Inr cd \<Longrightarrow> length cd = cells_with_type cs"
proof (induction cs arbitrary: cd)
  case Nil
  then show ?case by (simp add: cells_with_type_def)
next
  case (Cons x cs)
  obtain key dt c where x: "x = (key, dt, c)" by (cases x)
  from Cons.prems x have wf: "length (shape c) = 2" "wf_array c" "mixed_wf cs"
    by (simp_all add: mixed_wf_def)
  from two_dimensional [OF wf(1,2)] obtain m rows where
    c: "c = Arr2 m rows" "list_all (\<lambda>r. length r = m) rows" by blast
  from Cons.prems(2) x c obtain i s where
    s: "mixed_stream env cs = Inr s" "cd = concat (map ((#) i) rows) @ s"
    by (auto split: option.splits sum.splits)
  from Cons.IH [OF wf(3) s(1)] s(2) c show ?case
    by (simp add: x cells_with_type_def length_concat_cons)
qed

lemma mixed_stream_total:
  "mixed_wf cs \<Longrightarrow> \<forall>key \<in> set (map fst cs). meshio_type_to_xdmf_index env key \<noteq> None \<Longrightarrow>
   \<exists>cd. mixed_stream env cs = Inr cd"
proof (induction cs)
  case Nil
  then show ?case by simp
next
  case (Cons x cs)
  obtain key dt c where x: "x = (key, dt, c)" by (cases x)
  from Cons.prems x have wf: "length (shape c) = 2" "wf_array c" "mixed_wf cs"
    by (simp_all add: mixed_wf_def)
  from two_dimensional [OF wf(1,2)] obtain m rows where c: "c = Arr2 m rows" by blast
  from Cons.prems x obtain i where i: "meshio_type_to_xdmf_index env key = Some i" by auto
  from Cons.IH [OF wf(3)] Cons.prems(2) obtain s where "mixed_stream env cs = Inr s" by auto
  with x c i show ?case by simp
qed

lemma dict_set_sum:
  "map_of kvs k = Some v \<Longrightarrow>
   sum_list (map g (dict_set k v' kvs)) + g (k, v) = sum_list (map g kvs) + (g (k, v') :: nat)"
  by (induction kvs) auto

lemma dict_set_list_all:
  "list_all P kvs \<Longrightarrow> P (k, v) \<Longrightarrow> list_all P (dict_set k v kvs)"
  by (induction kvs) auto

lemma dict_set_keys_set: "map_of kvs k = Some v \<Longrightarrow> set (map fst (dict_set k v' kvs)) = set (map fst kvs)"
  using dict_set_keys [of kvs k v'] by simp

lemma prepend_line_arity_result:
  assumes "mixed_wf cells"
  shows "\<exists>cells1. prepend_line_arity cells d = Inr (cells1, d + line_cells cells)
           \<and> mixed_wf cells1 \<and> cells_with_type cells1 = cells_with_type cells + line_cells cells
           \<and> set (map fst cells1) = set (map fst cells)"
proof (cases "map_of cells ''line''")
  case None
  with assms show ?thesis by (simp add: prepend_line_arity_def line_cells_def)
next
  case (Some v)
  obtain dt c where v: "v = (dt, c)" by (cases v)
  from Some v have "(''line'', dt, c) \<in> set cells" by (auto dest: map_of_SomeD)
  with assms have "length (shape c) = 2 \<and> wf_array c" by (auto simp: mixed_wf_def list_all_iff)
  with two_dimensional obtain m rows where c: "c = Arr2 m rows" "list_all (\<lambda>r. length r = m) rows"
    by blast
  let ?new = "(dt, Arr2 (Suc m) (map ((#) 2) rows))"
  have res: "prepend_line_arity cells d = Inr (dict_set ''line'' ?new cells, d + line_cells cells)"
    using Some v c by (simp add: prepend_line_arity_def line_cells_def)
  have wf: "mixed_wf (dict_set ''line'' ?new cells)"
    unfolding mixed_wf_def
    by (rule dict_set_list_all) (use assms c in \<open>auto simp: mixed_wf_def list_all_iff\<close>)
  from Some v c have sm: "map_of cells ''line'' = Some (dt, Arr2 m rows)" by simp
  have "cells_with_type (dict_set ''line'' ?new cells) = cells_with_type cells + line_cells cells"
    using dict_set_sum [OF sm, of "\<lambda>(key, dt, c). shape c ! 0 * (shape c ! 1 + 1)" ?new] Some v c
    by (simp add: cells_with_type_def line_cells_def)
  with res wf dict_set_keys_set [OF sm] show ?thesis by blast
qed

lemma totals_with_type:
  "mixed_wf cells \<Longrightarrow> total_num_cell_items cells + total_num_cells cells = cells_with_type cells"
proof (induction cells)
  case Nil
  then show ?case by (simp add: total_num_cell_items_def total_num_cells_def cells_with_type_def)
next
  case (Cons x cells)
  obtain key dt c where x: "x = (key, dt, c)" by (cases x)
  from Cons.prems x have wf: "length (shape c) = 2" "wf_array c" "mixed_wf cells"
    by (simp_all add: mixed_wf_def)
  from two_dimensional [OF wf(1,2)] obtain m rows where c: "c = Arr2 m rows" by blast
  from Cons.IH [OF wf(3)] show ?case
    by (simp add: x c total_num_cell_items_def total_num_cells_def cells_with_type_def)
qed

end
